theory Spec2Isabelle
  imports Main "HOL-Library.Sublist"
begin

section \<open>Binance mappers of tardis-node: data model\<close>

text \<open>
  The embedding follows \<^verbatim>\<open>src/mappers/binance.ts\<close> and \<^verbatim>\<open>src/mappers/index.ts\<close>.
  JavaScript numbers that carry sequence ids and epoch milliseconds (\<^verbatim>\<open>U\<close>, \<^verbatim>\<open>u\<close>,
  \<^verbatim>\<open>lastUpdateId\<close>, \<^verbatim>\<open>E\<close>, a \<^verbatim>\<open>Date\<close>) are the integers a double holds; comparing two
  of them is exact, adding rounds (see \<open>roundToDouble\<close>). \<^verbatim>\<open>Number(str)\<close>, which
  parses a decimal string into a double, is the parameter \<open>Number\<close> of every function that
  calls it. The one-letter fields of the wire records carry the prefix \<open>d_\<close>, \<open>mp_\<close> or
  \<open>tk_\<close>; fields whose name occurs in two records carry a prefix in one of them.
\<close>

type_synonym BinanceBookLevel = "string \<times> string"

record BinanceDepthData =
  d_E :: int
  d_s :: string
  d_U :: int
  d_u :: int
  d_b :: "BinanceBookLevel list"
  d_a :: "BinanceBookLevel list"

record BinanceDepthSnapshotData =
  snapshot_lastUpdateId :: int
  snapshot_bids :: "BinanceBookLevel list"
  snapshot_asks :: "BinanceBookLevel list"

text \<open>
  \<^verbatim>\<open>BinanceDepthData | BinanceDepthSnapshotData\<close>: the code tells the two apart by
  \<^verbatim>\<open>message.data.lastUpdateId !== undefined\<close>, which holds exactly for a snapshot.
\<close>

datatype BinanceDepthPayload =
  DepthUpdate BinanceDepthData
| DepthSnapshot BinanceDepthSnapshotData

text \<open>\<^verbatim>\<open>BinanceResponse<T>\<close>; \<open>stream = None\<close> is \<^verbatim>\<open>message.stream === undefined\<close>.\<close>

record 'd BinanceResponse =
  stream :: "string option"
  data :: 'd

record 'n BookLevel =
  price :: 'n
  amount :: 'n

record 'n BookChange =
  event_type :: string
  symbol :: string
  exchange :: string
  isSnapshot :: bool
  bids :: "'n BookLevel list"
  asks :: "'n BookLevel list"
  timestamp :: int
  localTimestamp :: int

section \<open>CircularBuffer\<close>

text \<open>
  A JavaScript array is a list of slots; a slot that was never written reads as
  \<^verbatim>\<open>undefined\<close>, which is \<open>None\<close>. Writing at an index at or beyond the length extends
  the array, the slots in between staying unwritten.
\<close>

record 'a CircularBuffer =
  cb_buffer :: "'a option list"
  cb_index :: nat
  cb_bufferSize :: nat

definition array_get :: "'a option list \<Rightarrow> nat \<Rightarrow> 'a option" where
  "array_get xs i = (if i < length xs then xs ! i else None)"

definition array_set :: "'a option list \<Rightarrow> nat \<Rightarrow> 'a \<Rightarrow> 'a option list" where
  "array_set xs i v =
     (if i < length xs then xs[i := Some v]
      else xs @ replicate (i - length xs) None @ [Some v])"

definition new_CircularBuffer :: "nat \<Rightarrow> 'a CircularBuffer" where
  "new_CircularBuffer n = \<lparr>cb_buffer = [], cb_index = 0, cb_bufferSize = n\<rparr>"

text \<open>
  \<^verbatim>\<open>append\<close> returns the popped value (\<open>None\<close> when nothing was popped) and the buffer
  after the call. The only construction site passes the size 200, so the divisor of
  \<^verbatim>\<open>%\<close> is positive wherever the code runs.
\<close>

definition append :: "'a CircularBuffer \<Rightarrow> 'a \<Rightarrow> 'a option \<times> 'a CircularBuffer" where
  "append this v =
     (let isFull = (length (cb_buffer this) = cb_bufferSize this);
          poppedValue = (if isFull then array_get (cb_buffer this) (cb_index this) else None)
      in (poppedValue,
          this\<lparr>cb_buffer := array_set (cb_buffer this) (cb_index this) v,
               cb_index := (cb_index this + 1) mod cb_bufferSize this\<rparr>))"

definition items :: "'a CircularBuffer \<Rightarrow> 'a option list" where
  "items this =
     map (\<lambda>i. array_get (cb_buffer this) ((cb_index this + i) mod length (cb_buffer this)))
       [0 ..< length (cb_buffer this)]"

definition count :: "'a CircularBuffer \<Rightarrow> nat" where
  "count this = length (cb_buffer this)"

definition clear :: "'a CircularBuffer \<Rightarrow> 'a CircularBuffer" where
  "clear this = this\<lparr>cb_buffer := [], cb_index := 0\<rparr>"

section \<open>BinanceBookChangeMapper\<close>

text \<open>
  \<^verbatim>\<open>LocalDepthInfo\<close>. The optional booleans are only ever tested for truthiness, so an
  absent flag is \<open>False\<close>; the optional \<^verbatim>\<open>lastUpdateId\<close> is compared numerically, so it
  keeps its \<^verbatim>\<open>undefined\<close> as \<open>None\<close>.
\<close>

record LocalDepthInfo =
  bufferedUpdates :: "BinanceDepthData CircularBuffer"
  snapshotProcessed :: bool
  lastUpdateId :: "int option"
  validatedFirstUpdate :: bool

text \<open>
  The text of the overlap message is the template
  \<^verbatim>\<open>Book depth snaphot has no overlap with first update, update ${JSON.stringify(update)},
  lastUpdateId: ${lastUpdateId}, exchange ${this.exchange}\<close>; the model keeps its three
  interpolated values.
\<close>

datatype OverlapMessage = NoOverlap BinanceDepthData "int option" string

datatype error =
  Error OverlapMessage
| TypeError

text \<open>
  The mapper object: its two constructor arguments, its per-symbol table, and the
  messages it handed to \<^verbatim>\<open>debug\<close>, oldest first.
\<close>

record BinanceBookChangeMapper =
  mapper_exchange :: string
  ignoreBookSnapshotOverlapError :: bool
  symbolToDepthInfoMapping :: "string \<rightharpoonup> LocalDepthInfo"
  debugLog :: "OverlapMessage list"

definition new_BinanceBookChangeMapper :: "string \<Rightarrow> bool \<Rightarrow> BinanceBookChangeMapper" where
  "new_BinanceBookChangeMapper ex ignore =
     \<lparr>mapper_exchange = ex, ignoreBookSnapshotOverlapError = ignore,
      symbolToDepthInfoMapping = Map.empty, debugLog = []\<rparr>"

definition mapBookLevel :: "(string \<Rightarrow> 'n) \<Rightarrow> BinanceBookLevel \<Rightarrow> 'n BookLevel" where
  "mapBookLevel Number level = \<lparr>price = Number (fst level), amount = Number (snd level)\<rparr>"

text \<open>
  The sum of two doubles is the double nearest to the exact sum, ties going to the even
  significand of 53 bits. \<open>ulp a\<close> is the distance between neighbouring doubles at the
  magnitude \<open>a\<close>, as far as integers see it: 1 below \<open>2^53\<close> = 9007199254740992, 2 from
  there to \<open>2^54\<close>,
  and so on. \<open>roundToDouble n\<close> is the double nearest to the integer \<open>n\<close>.
\<close>

function ulp :: "int \<Rightarrow> int" where
  "ulp a = (if a < 9007199254740992 then 1 else 2 * ulp (a div 2))"
  by pat_completeness auto
termination
  by (relation "measure nat") auto

declare ulp.simps [simp del]

definition roundToDouble :: "int \<Rightarrow> int" where
  "roundToDouble n =
     (let a = \<bar>n\<bar>;
          q = a div ulp a;
          r = a mod ulp a;
          m = (if 2 * r < ulp a then q
               else if ulp a < 2 * r then q + 1
               else if even q then q else q + 1)
      in sgn n * (m * ulp a))"

text \<open>
  Comparisons and \<^verbatim>\<open>+ 1\<close> on a possibly undefined number: \<^verbatim>\<open>undefined + 1\<close> is NaN and
  every comparison with \<^verbatim>\<open>undefined\<close> or NaN is false.
\<close>

fun num_le :: "int \<Rightarrow> int option \<Rightarrow> bool" where
  "num_le x None = False"
| "num_le x (Some y) = (x \<le> y)"

fun num_ge :: "int \<Rightarrow> int option \<Rightarrow> bool" where
  "num_ge x None = False"
| "num_ge x (Some y) = (x \<ge> y)"

fun plus1 :: "int option \<Rightarrow> int option" where
  "plus1 None = None"
| "plus1 (Some y) = Some (roundToDouble (y + 1))"

definition updateBookChange ::
  "(string \<Rightarrow> 'n) \<Rightarrow> string \<Rightarrow> BinanceDepthData \<Rightarrow> int \<Rightarrow> 'n BookChange" where
  "updateBookChange Number ex upd localTs =
     \<lparr>event_type = ''book_change'', symbol = d_s upd, exchange = ex, isSnapshot = False,
      bids = map (mapBookLevel Number) (d_b upd),
      asks = map (mapBookLevel Number) (d_a upd),
      timestamp = d_E upd, localTimestamp = localTs\<rparr>"

definition setValidated :: "BinanceBookChangeMapper \<Rightarrow> string \<Rightarrow> BinanceBookChangeMapper" where
  "setValidated this key =
     (case symbolToDepthInfoMapping this key of
        None \<Rightarrow> this
      | Some depthContext \<Rightarrow>
          this\<lparr>symbolToDepthInfoMapping :=
            (symbolToDepthInfoMapping this)(key \<mapsto> depthContext\<lparr>validatedFirstUpdate := True\<rparr>)\<rparr>)"

text \<open>
  \<^verbatim>\<open>mapBookDepthUpdate\<close> looks the context up under the symbol the update carries
  (\<^verbatim>\<open>binanceDepthUpdateData.s\<close>); reading a field of a missing context is a TypeError.
  The result is the thrown error, or the returned value (\<open>None\<close> for \<^verbatim>\<open>undefined\<close>) with
  the mapper after the call. Nothing is written before either throw.
\<close>

definition mapBookDepthUpdate ::
  "(string \<Rightarrow> 'n) \<Rightarrow> BinanceBookChangeMapper \<Rightarrow> BinanceDepthData \<Rightarrow> int
     \<Rightarrow> error + ('n BookChange option \<times> BinanceBookChangeMapper)" where
  "mapBookDepthUpdate Number this upd localTs =
     (case symbolToDepthInfoMapping this (d_s upd) of
        None \<Rightarrow> Inl TypeError
      | Some depthContext \<Rightarrow>
          (let lastId = lastUpdateId depthContext;
               bookChange = updateBookChange Number (mapper_exchange this) upd localTs
           in if num_le (d_u upd) lastId then Inr (None, this)
              else if \<not> validatedFirstUpdate depthContext then
                (let bookSnapshotIsEmpty = (lastId = Some (- 1))
                 in if (num_le (d_U upd) (plus1 lastId) \<and> num_ge (d_u upd) (plus1 lastId))
                        \<or> bookSnapshotIsEmpty
                    then Inr (Some bookChange, setValidated this (d_s upd))
                    else
                      (let message = NoOverlap upd lastId (mapper_exchange this)
                       in if ignoreBookSnapshotOverlapError this
                          then Inr (Some bookChange,
                                 (setValidated this (d_s upd))\<lparr>debugLog := debugLog this @ [message]\<rparr>)
                          else Inl (Error message)))
              else Inr (Some bookChange, this)))"

text \<open>
  What one call of the generator \<^verbatim>\<open>map\<close> does when its consumer reads it to the end:
  the events it yielded, the mapper afterwards, and the error it threw, if any. Events
  yielded before a throw have reached the consumer.
\<close>

record 'n MapResult =
  yielded :: "'n BookChange list"
  after :: BinanceBookChangeMapper
  thrown :: "error option"

text \<open>
  The loop over \<^verbatim>\<open>bufferedUpdates.items()\<close>. An \<^verbatim>\<open>undefined\<close> item would fail at
  \<^verbatim>\<open>binanceDepthUpdateData.s\<close>.
\<close>

fun replay ::
  "(string \<Rightarrow> 'n) \<Rightarrow> BinanceBookChangeMapper \<Rightarrow> BinanceDepthData option list \<Rightarrow> int
     \<Rightarrow> 'n MapResult" where
  "replay Number this [] localTs = \<lparr>yielded = [], after = this, thrown = None\<rparr>"
| "replay Number this (None # rest) localTs =
     \<lparr>yielded = [], after = this, thrown = Some TypeError\<rparr>"
| "replay Number this (Some upd # rest) localTs =
     (case mapBookDepthUpdate Number this upd localTs of
        Inl e \<Rightarrow> \<lparr>yielded = [], after = this, thrown = Some e\<rparr>
      | Inr (bookChange, this') \<Rightarrow>
          (let r = replay Number this' rest localTs
           in r\<lparr>yielded := (case bookChange of None \<Rightarrow> [] | Some bc \<Rightarrow> [bc]) @ yielded r\<rparr>))"

text \<open>\<^verbatim>\<open>String.prototype.toUpperCase\<close> on the ASCII letters of a stream name.\<close>

definition toUpperChar :: "char \<Rightarrow> char" where
  "toUpperChar c =
     (case map_of (zip ''abcdefghijklmnopqrstuvwxyz'' ''ABCDEFGHIJKLMNOPQRSTUVWXYZ'') c of
        Some C \<Rightarrow> C
      | None \<Rightarrow> c)"

definition toUpperCase :: "string \<Rightarrow> string" where
  "toUpperCase str = map toUpperChar str"

text \<open>\<^verbatim>\<open>message.stream.split('@')[0].toUpperCase()\<close>\<close>

definition streamSymbol :: "string \<Rightarrow> string" where
  "streamSymbol str = toUpperCase (takeWhile (\<lambda>c. c \<noteq> CHR ''@'') str)"

definition new_LocalDepthInfo :: LocalDepthInfo where
  "new_LocalDepthInfo =
     \<lparr>bufferedUpdates = new_CircularBuffer 200, snapshotProcessed = False,
      lastUpdateId = None, validatedFirstUpdate = False\<rparr>"

definition withDepthInfo :: "BinanceBookChangeMapper \<Rightarrow> string \<Rightarrow> BinanceBookChangeMapper" where
  "withDepthInfo this symb =
     (if symbolToDepthInfoMapping this symb = None
      then this\<lparr>symbolToDepthInfoMapping := (symbolToDepthInfoMapping this)(symb \<mapsto> new_LocalDepthInfo)\<rparr>
      else this)"

definition modifyDepthInfo ::
  "BinanceBookChangeMapper \<Rightarrow> string \<Rightarrow> (LocalDepthInfo \<Rightarrow> LocalDepthInfo) \<Rightarrow> BinanceBookChangeMapper" where
  "modifyDepthInfo this symb f =
     (case symbolToDepthInfoMapping this symb of
        None \<Rightarrow> this
      | Some info \<Rightarrow> this\<lparr>symbolToDepthInfoMapping := (symbolToDepthInfoMapping this)(symb \<mapsto> f info)\<rparr>)"

definition snapshotBookChange ::
  "(string \<Rightarrow> 'n) \<Rightarrow> string \<Rightarrow> string \<Rightarrow> BinanceDepthSnapshotData \<Rightarrow> int \<Rightarrow> 'n BookChange" where
  "snapshotBookChange Number ex symb snap localTs =
     \<lparr>event_type = ''book_change'', symbol = symb, exchange = ex, isSnapshot = True,
      bids = map (mapBookLevel Number) (snapshot_bids snap),
      asks = map (mapBookLevel Number) (snapshot_asks snap),
      timestamp = localTs, localTimestamp = localTs\<rparr>"

text \<open>
  \<^verbatim>\<open>BinanceBookChangeMapper.map\<close>. \<open>symbolDepthInfo\<close> is the table's entry for the
  stream's symbol, so a write through it is a write to the table at that key.
\<close>

definition mapDepth ::
  "(string \<Rightarrow> 'n) \<Rightarrow> BinanceBookChangeMapper \<Rightarrow> BinanceDepthPayload BinanceResponse \<Rightarrow> int
     \<Rightarrow> 'n MapResult" where
  "mapDepth Number this message localTs =
     (case stream message of
        None \<Rightarrow> \<lparr>yielded = [], after = this, thrown = Some TypeError\<rparr>
      | Some str \<Rightarrow>
          (let symb = streamSymbol str;
               this0 = withDepthInfo this symb;
               symbolDepthInfo = the (symbolToDepthInfoMapping this0 symb);
               snapshotAlreadyProcessed = snapshotProcessed symbolDepthInfo
           in case data message of
                DepthSnapshot snap \<Rightarrow>
                  if snapshotAlreadyProcessed
                  then \<lparr>yielded = [], after = this0, thrown = None\<rparr>
                  else
                    (let bookChange =
                           snapshotBookChange Number (mapper_exchange this0) symb snap localTs;
                         this1 = modifyDepthInfo this0 symb
                           (\<lambda>i. i\<lparr>lastUpdateId := Some (snapshot_lastUpdateId snap),
                                  snapshotProcessed := True\<rparr>);
                         r = replay Number this1 (items (bufferedUpdates symbolDepthInfo)) localTs
                     in case thrown r of
                          Some e \<Rightarrow> r\<lparr>yielded := bookChange # yielded r\<rparr>
                        | None \<Rightarrow>
                            \<lparr>yielded = bookChange # yielded r,
                             after = modifyDepthInfo (after r) symb
                               (\<lambda>i. i\<lparr>bufferedUpdates := clear (bufferedUpdates i)\<rparr>),
                             thrown = None\<rparr>)
              | DepthUpdate upd \<Rightarrow>
                  if snapshotAlreadyProcessed
                  then
                    (case mapBookDepthUpdate Number this0 upd localTs of
                       Inl e \<Rightarrow> \<lparr>yielded = [], after = this0, thrown = Some e\<rparr>
                     | Inr (bookChange, this') \<Rightarrow>
                         \<lparr>yielded = (case bookChange of None \<Rightarrow> [] | Some bc \<Rightarrow> [bc]),
                          after = this', thrown = None\<rparr>)
                  else
                    \<lparr>yielded = [],
                     after = modifyDepthInfo this0 symb
                       (\<lambda>i. i\<lparr>bufferedUpdates := snd (append (bufferedUpdates i) upd)\<rparr>),
                     thrown = None\<rparr>))"

text \<open>
  The caller's loop (the mapper is driven with the messages of one connection, in the
  order received): each message with its receipt time, stopping at the first throw.
\<close>

fun mapAll ::
  "(string \<Rightarrow> 'n) \<Rightarrow> BinanceBookChangeMapper
     \<Rightarrow> (BinanceDepthPayload BinanceResponse \<times> int) list \<Rightarrow> 'n MapResult" where
  "mapAll Number this [] = \<lparr>yielded = [], after = this, thrown = None\<rparr>"
| "mapAll Number this (m # rest) =
     (let r = mapDepth Number this (fst m) (snd m)
      in case thrown r of
           Some e \<Rightarrow> r
         | None \<Rightarrow>
             (let r' = mapAll Number (after r) rest
              in r'\<lparr>yielded := yielded r @ yielded r'\<rparr>))"

subsection \<open>Vocabulary of the statements\<close>

text \<open>The last \<open>k\<close> elements of a list: what a FIFO of capacity \<open>k\<close> retains.\<close>

definition lastN :: "nat \<Rightarrow> 'a list \<Rightarrow> 'a list" where
  "lastN k xs = drop (length xs - k) xs"

text \<open>
  The states of a buffer that \<^verbatim>\<open>append\<close> and \<^verbatim>\<open>clear\<close> can produce from a new one: the
  cursor is the length while the array grows, and stays inside it once it is full.
\<close>

definition cb_inv :: "'a CircularBuffer \<Rightarrow> bool" where
  "cb_inv this \<longleftrightarrow>
     0 < cb_bufferSize this \<and> None \<notin> set (cb_buffer this) \<and>
     (if length (cb_buffer this) < cb_bufferSize this
      then cb_index this = length (cb_buffer this)
      else length (cb_buffer this) = cb_bufferSize this \<and> cb_index this < cb_bufferSize this)"

text \<open>The entry of a symbol, as \<^verbatim>\<open>map\<close> sees it after its lazy initialisation.\<close>

definition depthInfo :: "BinanceBookChangeMapper \<Rightarrow> string \<Rightarrow> LocalDepthInfo" where
  "depthInfo this symb =
     (case symbolToDepthInfoMapping this symb of None \<Rightarrow> new_LocalDepthInfo | Some i \<Rightarrow> i)"

definition bufferedItems :: "BinanceBookChangeMapper \<Rightarrow> string \<Rightarrow> BinanceDepthData option list" where
  "bufferedItems this symb = items (bufferedUpdates (depthInfo this symb))"

text \<open>A message of the depth stream of \<open>symb\<close> carrying the update \<open>upd\<close>.\<close>

definition updateMessage :: "string \<Rightarrow> BinanceDepthData \<Rightarrow> BinanceDepthPayload BinanceResponse" where
  "updateMessage str upd = \<lparr>stream = Some str, data = DepthUpdate upd\<rparr>"

definition snapshotMessage ::
  "string \<Rightarrow> BinanceDepthSnapshotData \<Rightarrow> BinanceDepthPayload BinanceResponse" where
  "snapshotMessage str snap = \<lparr>stream = Some str, data = DepthSnapshot snap\<rparr>"

text \<open>
  The overlap test of the first processed update against \<open>lastUpdateId = L\<close>, with the
  code's \<^verbatim>\<open>lastUpdateId + 1\<close>, a sum of doubles.
\<close>

definition overlaps :: "BinanceDepthData \<Rightarrow> int \<Rightarrow> bool" where
  "overlaps upd L \<longleftrightarrow>
     (d_U upd \<le> roundToDouble (L + 1) \<and> d_u upd \<ge> roundToDouble (L + 1)) \<or> L = - 1"

section \<open>canHandle of the three Binance mappers\<close>

text \<open>
  Each \<^verbatim>\<open>canHandle\<close> is a method: it receives its object and the message, and returns
  its answer with the object as the call leaves it.
\<close>

record BinanceTradesMapper =
  trades_exchange :: string

definition BinanceTradesMapper_canHandle ::
  "BinanceTradesMapper \<Rightarrow> 'd BinanceResponse \<Rightarrow> bool \<times> BinanceTradesMapper" where
  "BinanceTradesMapper_canHandle this message =
     (case stream message of
        None \<Rightarrow> (False, this)
      | Some str \<Rightarrow> (suffix ''@trade'' str, this))"

definition BinanceBookChangeMapper_canHandle ::
  "BinanceBookChangeMapper \<Rightarrow> 'd BinanceResponse \<Rightarrow> bool \<times> BinanceBookChangeMapper" where
  "BinanceBookChangeMapper_canHandle this message =
     (case stream message of
        None \<Rightarrow> (False, this)
      | Some str \<Rightarrow> (sublist ''@depth'' str, this))"

section \<open>Pending ticker accumulator and the derivative ticker mapper\<close>

record 'n DerivativeTicker =
  dt_type :: string
  dt_symbol :: string
  dt_exchange :: string
  dt_lastPrice :: "'n option"
  dt_fundingRate :: "'n option"
  dt_markPrice :: "'n option"
  dt_timestamp :: "int option"
  dt_localTimestamp :: int

text \<open>
  Modelled from the spec: \<^verbatim>\<open>PendingTickerInfoHelper\<close> and the accumulator it hands out
  live in \<^verbatim>\<open>./mapper\<close>, which is not among the sources. The accumulator is keyed by
  symbol; it holds the last known funding rate, mark price, last price and timestamp
  (unknown until set) and a changed flag per field. An update operation stores the value
  and raises the flag only if the value differs from the stored one; \<^verbatim>\<open>hasChanged\<close>
  tells whether a flag is raised; \<^verbatim>\<open>getSnapshot\<close> builds the ticker from the current
  values and lowers every flag.
\<close>

record 'n PendingTickerInfo =
  pending_symbol :: string
  pending_exchange :: string
  fundingRate :: "'n option"
  markPrice :: "'n option"
  lastPrice :: "'n option"
  pending_timestamp :: "int option"
  fundingRateChanged :: bool
  markPriceChanged :: bool
  lastPriceChanged :: bool
  timestampChanged :: bool

definition new_PendingTickerInfo :: "string \<Rightarrow> string \<Rightarrow> 'n PendingTickerInfo" where
  "new_PendingTickerInfo symb ex =
     \<lparr>pending_symbol = symb, pending_exchange = ex,
      fundingRate = None, markPrice = None, lastPrice = None, pending_timestamp = None,
      fundingRateChanged = False, markPriceChanged = False, lastPriceChanged = False,
      timestampChanged = False\<rparr>"

definition updateFundingRate :: "'n PendingTickerInfo \<Rightarrow> 'n \<Rightarrow> 'n PendingTickerInfo" where
  "updateFundingRate this v =
     (if fundingRate this \<noteq> Some v
      then this\<lparr>fundingRate := Some v, fundingRateChanged := True\<rparr> else this)"

definition updateMarkPrice :: "'n PendingTickerInfo \<Rightarrow> 'n \<Rightarrow> 'n PendingTickerInfo" where
  "updateMarkPrice this v =
     (if markPrice this \<noteq> Some v
      then this\<lparr>markPrice := Some v, markPriceChanged := True\<rparr> else this)"

definition updateLastPrice :: "'n PendingTickerInfo \<Rightarrow> 'n \<Rightarrow> 'n PendingTickerInfo" where
  "updateLastPrice this v =
     (if lastPrice this \<noteq> Some v
      then this\<lparr>lastPrice := Some v, lastPriceChanged := True\<rparr> else this)"

definition updateTimestamp :: "'n PendingTickerInfo \<Rightarrow> int \<Rightarrow> 'n PendingTickerInfo" where
  "updateTimestamp this v =
     (if pending_timestamp this \<noteq> Some v
      then this\<lparr>pending_timestamp := Some v, timestampChanged := True\<rparr> else this)"

definition hasChanged :: "'n PendingTickerInfo \<Rightarrow> bool" where
  "hasChanged this \<longleftrightarrow>
     fundingRateChanged this \<or> markPriceChanged this \<or> lastPriceChanged this
       \<or> timestampChanged this"

definition getSnapshot ::
  "'n PendingTickerInfo \<Rightarrow> int \<Rightarrow> 'n DerivativeTicker \<times> 'n PendingTickerInfo" where
  "getSnapshot this localTs =
     (\<lparr>dt_type = ''derivative_ticker'', dt_symbol = pending_symbol this,
       dt_exchange = pending_exchange this, dt_lastPrice = lastPrice this,
       dt_fundingRate = fundingRate this, dt_markPrice = markPrice this,
       dt_timestamp = pending_timestamp this, dt_localTimestamp = localTs\<rparr>,
      this\<lparr>fundingRateChanged := False, markPriceChanged := False,
           lastPriceChanged := False, timestampChanged := False\<rparr>)"

type_synonym 'n PendingTickerInfoHelper = "string \<rightharpoonup> 'n PendingTickerInfo"

definition getPendingTickerInfo ::
  "'n PendingTickerInfoHelper \<Rightarrow> string \<Rightarrow> string
     \<Rightarrow> 'n PendingTickerInfo \<times> 'n PendingTickerInfoHelper" where
  "getPendingTickerInfo this symb ex =
     (case this symb of
        Some info \<Rightarrow> (info, this)
      | None \<Rightarrow> (new_PendingTickerInfo symb ex, this(symb \<mapsto> new_PendingTickerInfo symb ex)))"

text \<open>
  From the source again. \<^verbatim>\<open>BinanceFuturesMarkPriceData | BinanceFuturesTickerData\<close>:
  \<^verbatim>\<open>'r' in message.data\<close> holds for the first, \<^verbatim>\<open>'c' in message.data\<close> for the second.
\<close>

record BinanceFuturesMarkPriceData =
  mp_s :: string
  mp_E :: int
  mp_p :: string
  mp_r :: string

record BinanceFuturesTickerData =
  tk_E :: int
  tk_s :: string
  tk_c :: string

datatype BinanceFuturesTickerPayload =
  MarkPriceData BinanceFuturesMarkPriceData
| TickerData BinanceFuturesTickerData

fun payload_s :: "BinanceFuturesTickerPayload \<Rightarrow> string" where
  "payload_s (MarkPriceData d) = mp_s d"
| "payload_s (TickerData d) = tk_s d"

record 'n BinanceFuturesDerivativeTickerMapper =
  pendingTickerInfoHelper :: "'n PendingTickerInfoHelper"

definition new_BinanceFuturesDerivativeTickerMapper :: "'n BinanceFuturesDerivativeTickerMapper" where
  "new_BinanceFuturesDerivativeTickerMapper = \<lparr>pendingTickerInfoHelper = Map.empty\<rparr>"

definition BinanceFuturesDerivativeTickerMapper_canHandle ::
  "'n BinanceFuturesDerivativeTickerMapper \<Rightarrow> 'd BinanceResponse
     \<Rightarrow> bool \<times> 'n BinanceFuturesDerivativeTickerMapper" where
  "BinanceFuturesDerivativeTickerMapper_canHandle this message =
     (case stream message of
        None \<Rightarrow> (False, this)
      | Some str \<Rightarrow> (sublist ''@markPrice'' str \<or> suffix ''@ticker'' str, this))"

text \<open>
  \<^verbatim>\<open>BinanceFuturesDerivativeTickerMapper.map\<close>: the tickers it yields and the mapper
  afterwards. The accumulator is an object of the helper's table, so what the update
  operations and \<^verbatim>\<open>getSnapshot\<close> write is written to the table's entry.
\<close>

definition mapTicker ::
  "(string \<Rightarrow> 'n) \<Rightarrow> 'n BinanceFuturesDerivativeTickerMapper
     \<Rightarrow> BinanceFuturesTickerPayload BinanceResponse \<Rightarrow> int
     \<Rightarrow> 'n DerivativeTicker list \<times> 'n BinanceFuturesDerivativeTickerMapper" where
  "mapTicker Number this message localTs =
     (let symb = payload_s (data message);
          (info0, helper) =
             getPendingTickerInfo (pendingTickerInfoHelper this) symb ''binance-futures'';
          info1 = (case data message of
                     MarkPriceData d \<Rightarrow>
                       updateTimestamp
                         (updateMarkPrice (updateFundingRate info0 (Number (mp_r d)))
                            (Number (mp_p d)))
                         (mp_E d)
                   | TickerData d \<Rightarrow> info0);
          info2 = (case data message of
                     TickerData d \<Rightarrow> updateTimestamp (updateLastPrice info1 (Number (tk_c d))) (tk_E d)
                   | MarkPriceData d \<Rightarrow> info1)
      in if hasChanged info2
         then (let (ticker, info3) = getSnapshot info2 localTs
               in ([ticker], this\<lparr>pendingTickerInfoHelper := helper(symb \<mapsto> info3)\<rparr>))
         else ([], this\<lparr>pendingTickerInfoHelper := helper(symb \<mapsto> info2)\<rparr>))"

definition pendingInfo :: "'n BinanceFuturesDerivativeTickerMapper \<Rightarrow> string \<Rightarrow> 'n PendingTickerInfo" where
  "pendingInfo this symb =
     (case pendingTickerInfoHelper this symb of
        None \<Rightarrow> new_PendingTickerInfo symb ''binance-futures'' | Some i \<Rightarrow> i)"

definition accumulated ::
  "'n PendingTickerInfo \<Rightarrow> 'n option \<times> 'n option \<times> 'n option \<times> int option" where
  "accumulated info = (fundingRate info, markPrice info, lastPrice info, pending_timestamp info)"

section \<open>BinanceTradesMapper\<close>

text \<open>
  \<^verbatim>\<open>BinanceTradeData\<close> and the canonical \<^verbatim>\<open>Trade\<close>; \<^verbatim>\<open>String(n)\<close>, the decimal text of a
  number, is the parameter \<open>String\<close>.
\<close>

record BinanceTradeData =
  t_s :: string
  t_t :: int
  t_p :: string
  t_q :: string
  t_T :: int
  t_m :: bool

record 'n Trade =
  trade_type :: string
  trade_symbol :: string
  trade_exchange :: string
  trade_id :: string
  trade_price :: 'n
  trade_amount :: 'n
  trade_side :: string
  trade_timestamp :: int
  trade_localTimestamp :: int

definition mapTrade ::
  "(string \<Rightarrow> 'n) \<Rightarrow> (int \<Rightarrow> string) \<Rightarrow> BinanceTradesMapper
     \<Rightarrow> BinanceTradeData BinanceResponse \<Rightarrow> int \<Rightarrow> 'n Trade list \<times> BinanceTradesMapper" where
  "mapTrade Number String this binanceTradeResponse localTs =
     (let binanceTrade = data binanceTradeResponse;
          trade =
            \<lparr>trade_type = ''trade'', trade_symbol = t_s binanceTrade,
             trade_exchange = trades_exchange this, trade_id = String (t_t binanceTrade),
             trade_price = Number (t_p binanceTrade), trade_amount = Number (t_q binanceTrade),
             trade_side = (if t_m binanceTrade then ''sell'' else ''buy''),
             trade_timestamp = t_T binanceTrade, trade_localTimestamp = localTs\<rparr>
      in ([trade], this))"

section \<open>BinanceFuturesBookChangeMapper\<close>

text \<open>
  The subclass keeps the fields and the \<^verbatim>\<open>map\<close> of \<^verbatim>\<open>BinanceBookChangeMapper\<close> and
  overrides \<^verbatim>\<open>mapBookDepthUpdate\<close>; its updates carry \<^verbatim>\<open>pu\<close> as well. Its records and
  functions repeat those of the base class under the prefix \<open>futures_\<close>.
\<close>

record BinanceFuturesDepthData = BinanceDepthData +
  d_pu :: int

datatype BinanceFuturesDepthPayload =
  FuturesDepthUpdate BinanceFuturesDepthData
| FuturesDepthSnapshot BinanceDepthSnapshotData

record FuturesLocalDepthInfo =
  futures_bufferedUpdates :: "BinanceFuturesDepthData CircularBuffer"
  futures_snapshotProcessed :: bool
  futures_lastUpdateId :: "int option"
  futures_validatedFirstUpdate :: bool

datatype FuturesOverlapMessage = FuturesNoOverlap BinanceFuturesDepthData "int option" string

datatype futures_error =
  FuturesError FuturesOverlapMessage
| FuturesTypeError

record BinanceFuturesBookChangeMapper =
  futures_exchange :: string
  futures_ignoreBookSnapshotOverlapError :: bool
  futures_symbolToDepthInfoMapping :: "string \<rightharpoonup> FuturesLocalDepthInfo"
  futures_debugLog :: "FuturesOverlapMessage list"


fun num_lt :: "int \<Rightarrow> int option \<Rightarrow> bool" where
  "num_lt x None = False"
| "num_lt x (Some y) = (x < y)"

definition futures_setValidated ::
  "BinanceFuturesBookChangeMapper \<Rightarrow> string \<Rightarrow> BinanceFuturesBookChangeMapper" where
  "futures_setValidated this key =
     (case futures_symbolToDepthInfoMapping this key of
        None \<Rightarrow> this
      | Some depthContext \<Rightarrow>
          this\<lparr>futures_symbolToDepthInfoMapping :=
            (futures_symbolToDepthInfoMapping this)
              (key \<mapsto> depthContext\<lparr>futures_validatedFirstUpdate := True\<rparr>)\<rparr>)"

text \<open>
  The override: an update with \<^verbatim>\<open>pu === -1\<close> is itself a snapshot, the stale test is
  \<^verbatim>\<open>u < lastUpdateId\<close>, and the overlap test is \<^verbatim>\<open>U <= lastUpdateId && u >= lastUpdateId\<close>.
\<close>

definition futures_mapBookDepthUpdate ::
  "(string \<Rightarrow> 'n) \<Rightarrow> BinanceFuturesBookChangeMapper \<Rightarrow> BinanceFuturesDepthData \<Rightarrow> int
     \<Rightarrow> futures_error + ('n BookChange option \<times> BinanceFuturesBookChangeMapper)" where
  "futures_mapBookDepthUpdate Number this upd localTs =
     (case futures_symbolToDepthInfoMapping this (d_s upd) of
        None \<Rightarrow> Inl FuturesTypeError
      | Some depthContext \<Rightarrow>
          (let lastId = futures_lastUpdateId depthContext;
               isSnap = (d_pu upd = - 1);
               bookChange =
                 \<lparr>event_type = ''book_change'', symbol = d_s upd, exchange = futures_exchange this,
                  isSnapshot = isSnap,
                  bids = map (mapBookLevel Number) (d_b upd),
                  asks = map (mapBookLevel Number) (d_a upd),
                  timestamp = d_E upd, localTimestamp = localTs\<rparr>
           in if num_lt (d_u upd) lastId then Inr (None, this)
              else if \<not> futures_validatedFirstUpdate depthContext then
                (if (num_le (d_U upd) lastId \<and> num_ge (d_u upd) lastId) \<or> isSnap
                 then Inr (Some bookChange, futures_setValidated this (d_s upd))
                 else
                   (let message = FuturesNoOverlap upd lastId (futures_exchange this)
                    in if futures_ignoreBookSnapshotOverlapError this
                       then Inr (Some bookChange,
                              (futures_setValidated this (d_s upd))
                                \<lparr>futures_debugLog := futures_debugLog this @ [message]\<rparr>)
                       else Inl (FuturesError message)))
              else Inr (Some bookChange, this)))"

record 'n FuturesMapResult =
  futures_yielded :: "'n BookChange list"
  futures_after :: BinanceFuturesBookChangeMapper
  futures_thrown :: "futures_error option"

fun futures_replay ::
  "(string \<Rightarrow> 'n) \<Rightarrow> BinanceFuturesBookChangeMapper \<Rightarrow> BinanceFuturesDepthData option list \<Rightarrow> int
     \<Rightarrow> 'n FuturesMapResult" where
  "futures_replay Number this [] localTs =
     \<lparr>futures_yielded = [], futures_after = this, futures_thrown = None\<rparr>"
| "futures_replay Number this (None # rest) localTs =
     \<lparr>futures_yielded = [], futures_after = this, futures_thrown = Some FuturesTypeError\<rparr>"
| "futures_replay Number this (Some upd # rest) localTs =
     (case futures_mapBookDepthUpdate Number this upd localTs of
        Inl e \<Rightarrow> \<lparr>futures_yielded = [], futures_after = this, futures_thrown = Some e\<rparr>
      | Inr (bookChange, this') \<Rightarrow>
          (let r = futures_replay Number this' rest localTs
           in r\<lparr>futures_yielded :=
                 (case bookChange of None \<Rightarrow> [] | Some bc \<Rightarrow> [bc]) @ futures_yielded r\<rparr>))"

definition new_FuturesLocalDepthInfo :: FuturesLocalDepthInfo where
  "new_FuturesLocalDepthInfo =
     \<lparr>futures_bufferedUpdates = new_CircularBuffer 200, futures_snapshotProcessed = False,
      futures_lastUpdateId = None, futures_validatedFirstUpdate = False\<rparr>"

definition futures_withDepthInfo ::
  "BinanceFuturesBookChangeMapper \<Rightarrow> string \<Rightarrow> BinanceFuturesBookChangeMapper" where
  "futures_withDepthInfo this symb =
     (if futures_symbolToDepthInfoMapping this symb = None
      then this\<lparr>futures_symbolToDepthInfoMapping :=
             (futures_symbolToDepthInfoMapping this)(symb \<mapsto> new_FuturesLocalDepthInfo)\<rparr>
      else this)"

definition futures_modifyDepthInfo ::
  "BinanceFuturesBookChangeMapper \<Rightarrow> string \<Rightarrow> (FuturesLocalDepthInfo \<Rightarrow> FuturesLocalDepthInfo)
     \<Rightarrow> BinanceFuturesBookChangeMapper" where
  "futures_modifyDepthInfo this symb f =
     (case futures_symbolToDepthInfoMapping this symb of
        None \<Rightarrow> this
      | Some info \<Rightarrow>
          this\<lparr>futures_symbolToDepthInfoMapping :=
            (futures_symbolToDepthInfoMapping this)(symb \<mapsto> f info)\<rparr>)"

text \<open>The inherited \<^verbatim>\<open>map\<close>, calling the override.\<close>

definition futures_mapDepth ::
  "(string \<Rightarrow> 'n) \<Rightarrow> BinanceFuturesBookChangeMapper
     \<Rightarrow> BinanceFuturesDepthPayload BinanceResponse \<Rightarrow> int \<Rightarrow> 'n FuturesMapResult" where
  "futures_mapDepth Number this message localTs =
     (case stream message of
        None \<Rightarrow> \<lparr>futures_yielded = [], futures_after = this, futures_thrown = Some FuturesTypeError\<rparr>
      | Some str \<Rightarrow>
          (let symb = streamSymbol str;
               this0 = futures_withDepthInfo this symb;
               symbolDepthInfo = the (futures_symbolToDepthInfoMapping this0 symb);
               snapshotAlreadyProcessed = futures_snapshotProcessed symbolDepthInfo
           in case data message of
                FuturesDepthSnapshot snap \<Rightarrow>
                  if snapshotAlreadyProcessed
                  then \<lparr>futures_yielded = [], futures_after = this0, futures_thrown = None\<rparr>
                  else
                    (let bookChange =
                           snapshotBookChange Number (futures_exchange this0) symb snap localTs;
                         this1 = futures_modifyDepthInfo this0 symb
                           (\<lambda>i. i\<lparr>futures_lastUpdateId := Some (snapshot_lastUpdateId snap),
                                  futures_snapshotProcessed := True\<rparr>);
                         r = futures_replay Number this1
                               (items (futures_bufferedUpdates symbolDepthInfo)) localTs
                     in case futures_thrown r of
                          Some e \<Rightarrow> r\<lparr>futures_yielded := bookChange # futures_yielded r\<rparr>
                        | None \<Rightarrow>
                            \<lparr>futures_yielded = bookChange # futures_yielded r,
                             futures_after = futures_modifyDepthInfo (futures_after r) symb
                               (\<lambda>i. i\<lparr>futures_bufferedUpdates :=
                                        clear (futures_bufferedUpdates i)\<rparr>),
                             futures_thrown = None\<rparr>)
              | FuturesDepthUpdate upd \<Rightarrow>
                  if snapshotAlreadyProcessed
                  then
                    (case futures_mapBookDepthUpdate Number this0 upd localTs of
                       Inl e \<Rightarrow>
                         \<lparr>futures_yielded = [], futures_after = this0, futures_thrown = Some e\<rparr>
                     | Inr (bookChange, this') \<Rightarrow>
                         \<lparr>futures_yielded = (case bookChange of None \<Rightarrow> [] | Some bc \<Rightarrow> [bc]),
                          futures_after = this', futures_thrown = None\<rparr>)
                  else
                    \<lparr>futures_yielded = [],
                     futures_after = futures_modifyDepthInfo this0 symb
                       (\<lambda>i. i\<lparr>futures_bufferedUpdates :=
                                snd (append (futures_bufferedUpdates i) upd)\<rparr>),
                     futures_thrown = None\<rparr>))"

section \<open>Mapper registry and the normalisation entry points\<close>




text \<open>
  Mapper objects live in a store. A class of \<^verbatim>\<open>./binance\<close> is an object with the state
  its constructor builds; a class of another module, whose source is elsewhere, is its
  class name with the constructor's arguments.
\<close>

datatype CtorArg = ArgString string | ArgBool bool

datatype 'n MapperObject =
  BinanceTradesMapperObject BinanceTradesMapper
| BinanceBookChangeMapperObject BinanceBookChangeMapper
| BinanceFuturesBookChangeMapperObject BinanceFuturesBookChangeMapper
| BinanceFuturesDerivativeTickerMapperObject "'n BinanceFuturesDerivativeTickerMapper"
| OtherMapperObject string "CtorArg list"

text \<open>
  A reference is either a binding another module exports (\<^verbatim>\<open>bitmexTradesMapper\<close>: one
  object for the life of the process) or the address of an object a \<^verbatim>\<open>new\<close> expression
  allocated. The store is the list of allocated objects, the address being the position.
\<close>

datatype MapperRef = Imported string | Allocated nat

type_synonym 'n Store = "'n MapperObject list"

text \<open>The body of a factory: it returns an imported binding, or evaluates \<^verbatim>\<open>new\<close>.\<close>

datatype 'n FactoryBody = Return string | New "'n MapperObject"

fun evaluate :: "'n FactoryBody \<Rightarrow> 'n Store \<Rightarrow> MapperRef \<times> 'n Store" where
  "evaluate (Return name) store = (Imported name, store)"
| "evaluate (New obj) store = (Allocated (length store), store @ [obj])"

definition new_BinanceTradesMapper :: "string \<Rightarrow> BinanceTradesMapper" where
  "new_BinanceTradesMapper ex = \<lparr>trades_exchange = ex\<rparr>"

definition tradesMappers :: "(string \<times> 'n FactoryBody) list" where
  "tradesMappers =
     [(''bitmex'', Return ''bitmexTradesMapper''),
      (''binance'', New (BinanceTradesMapperObject (new_BinanceTradesMapper ''binance''))),
      (''binance-us'', New (BinanceTradesMapperObject (new_BinanceTradesMapper ''binance-us''))),
      (''binance-jersey'', New (BinanceTradesMapperObject (new_BinanceTradesMapper ''binance-jersey''))),
      (''binance-futures'', New (BinanceTradesMapperObject (new_BinanceTradesMapper ''binance-futures''))),
      (''binance-dex'', Return ''binanceDexTradesMapper''),
      (''bitfinex'', New (OtherMapperObject ''BitfinexTradesMapper'' [ArgString ''bitfinex''])),
      (''bitfinex-derivatives'',
         New (OtherMapperObject ''BitfinexTradesMapper'' [ArgString ''bitfinex-derivatives''])),
      (''bitfinex-alts'', New (OtherMapperObject ''BitfinexTradesMapper'' [ArgString ''bitfinex-alts''])),
      (''bitflyer'', Return ''bitflyerTradesMapper''),
      (''bitstamp'', Return ''bitstampTradesMapper''),
      (''coinbase'', Return ''coinbaseTradesMapper''),
      (''cryptofacilities'', Return ''cryptofacilitiesTradesMapper''),
      (''deribit'', Return ''deribitTradesMapper''),
      (''ftx'', Return ''ftxTradesMapper''),
      (''gemini'', Return ''geminiTradesMapper''),
      (''kraken'', Return ''krakenTradesMapper''),
      (''okex'', New (OtherMapperObject ''OkexTradesMapper'' [ArgString ''okex'', ArgString ''spot''])),
      (''okex-futures'',
         New (OtherMapperObject ''OkexTradesMapper'' [ArgString ''okex-futures'', ArgString ''futures''])),
      (''okex-swap'',
         New (OtherMapperObject ''OkexTradesMapper'' [ArgString ''okex-swap'', ArgString ''swap''])),
      (''okex-options'',
         New (OtherMapperObject ''OkexTradesMapper'' [ArgString ''okex-options'', ArgString ''option''])),
      (''huobi'', New (OtherMapperObject ''HuobiTradesMapper'' [ArgString ''huobi''])),
      (''huobi-dm'', New (OtherMapperObject ''HuobiTradesMapper'' [ArgString ''huobi-dm''])),
      (''bybit'', New (OtherMapperObject ''BybitTradesMapper'' [ArgString ''bybit''])),
      (''okcoin'', New (OtherMapperObject ''OkexTradesMapper'' [ArgString ''okcoin'', ArgString ''spot''])),
      (''hitbtc'', Return ''hitBtcTradesMapper'')]"



text \<open>
  The tables are object literals, and \<^verbatim>\<open>table[exchange]\<close> is a property read: it finds
  the table's own entry, and failing that the member of that name that every object
  inherits from \<^verbatim>\<open>Object.prototype\<close>; only when there is neither is the value
  \<^verbatim>\<open>undefined\<close>.
\<close>

definition objectPrototypeNames :: "string list" where
  "objectPrototypeNames =
     [''constructor'', ''__defineGetter__'', ''__defineSetter__'', ''hasOwnProperty'',
      ''__lookupGetter__'', ''__lookupSetter__'', ''isPrototypeOf'', ''propertyIsEnumerable'',
      ''toString'', ''valueOf'', ''__proto__'', ''toLocaleString'']"

datatype 'a Property = Own 'a | Inherited string | Undefined

definition getProperty :: "(string \<times> 'a) list \<Rightarrow> string \<Rightarrow> 'a Property" where
  "getProperty table key =
     (case map_of table key of
        Some v \<Rightarrow> Own v
      | None \<Rightarrow> if key \<in> set objectPrototypeNames then Inherited key else Undefined)"

text \<open>
  What a call of an entry point comes to. With no value under the name it throws
  \<^verbatim>\<open>Error\<close> with the message built from the template. With the table's own factory it
  returns what the factory returns. With an inherited member the test against
  \<^verbatim>\<open>undefined\<close> passes and the code calls that member in the factory's place, with the
  factory's arguments: the outcome is that call's, whatever it returns or throws, and no
  mapper is allocated.
\<close>

datatype Outcome =
  Threw string
| Returned MapperRef
| CalledInherited string "int list"

definition normalizeTrades :: "string \<Rightarrow> int \<Rightarrow> 'n Store \<Rightarrow> Outcome \<times> 'n Store" where
  "normalizeTrades exchange_id localTs store =
     (case getProperty tradesMappers exchange_id of
        Undefined \<Rightarrow> (Threw (''normalizeTrades: '' @ exchange_id @ '' not supported''), store)
      | Own createTradesMapper \<Rightarrow>
          (let (r, store') = evaluate createTradesMapper store in (Returned r, store'))
      | Inherited name \<Rightarrow> (CalledInherited name [], store))"





text \<open>
  A message for one of the mappers of \<^verbatim>\<open>./binance\<close>, and what \<^verbatim>\<open>map\<close> of an object
  yields on it, read to the end; \<open>None\<close> where the object's class is not in the sources
  or the message is another mapper's.
\<close>

datatype RawMessage =
  TradeMessage "BinanceTradeData BinanceResponse"
| DepthMessage "BinanceDepthPayload BinanceResponse"
| FuturesDepthMessage "BinanceFuturesDepthPayload BinanceResponse"
| TickerMessage "BinanceFuturesTickerPayload BinanceResponse"

datatype 'n MapOutput =
  TradesOut "'n Trade list"
| BookChangesOut "'n BookChange list" "error option"
| FuturesBookChangesOut "'n BookChange list" "futures_error option"
| TickersOut "'n DerivativeTicker list"

fun callMap ::
  "(string \<Rightarrow> 'n) \<Rightarrow> (int \<Rightarrow> string) \<Rightarrow> 'n MapperObject \<Rightarrow> RawMessage \<Rightarrow> int
     \<Rightarrow> ('n MapOutput \<times> 'n MapperObject) option" where
  "callMap Number String (BinanceTradesMapperObject m) (TradeMessage msg) localTs =
     Some (TradesOut (fst (mapTrade Number String m msg localTs)),
           BinanceTradesMapperObject (snd (mapTrade Number String m msg localTs)))"
| "callMap Number String (BinanceBookChangeMapperObject m) (DepthMessage msg) localTs =
     Some (BookChangesOut (yielded (mapDepth Number m msg localTs))
             (thrown (mapDepth Number m msg localTs)),
           BinanceBookChangeMapperObject (after (mapDepth Number m msg localTs)))"
| "callMap Number String (BinanceFuturesBookChangeMapperObject m) (FuturesDepthMessage msg) localTs =
     Some (FuturesBookChangesOut (futures_yielded (futures_mapDepth Number m msg localTs))
             (futures_thrown (futures_mapDepth Number m msg localTs)),
           BinanceFuturesBookChangeMapperObject (futures_after (futures_mapDepth Number m msg localTs)))"
| "callMap Number String (BinanceFuturesDerivativeTickerMapperObject m) (TickerMessage msg) localTs =
     Some (TickersOut (fst (mapTicker Number m msg localTs)),
           BinanceFuturesDerivativeTickerMapperObject (snd (mapTicker Number m msg localTs)))"
| "callMap Number String obj msg localTs = None"

text \<open>
  Feeding a message to the mapper a reference denotes: \<^verbatim>\<open>map\<close> runs on the object at
  that address and what it writes is written there. \<open>deliverAll\<close> feeds a run of
  messages and collects the outputs.
\<close>

definition deliver ::
  "(string \<Rightarrow> 'n) \<Rightarrow> (int \<Rightarrow> string) \<Rightarrow> 'n Store \<Rightarrow> nat \<Rightarrow> RawMessage \<times> int
     \<Rightarrow> 'n MapOutput option \<times> 'n Store" where
  "deliver Number String store a m =
     (if a < length store
      then (case callMap Number String (store ! a) (fst m) (snd m) of
              None \<Rightarrow> (None, store)
            | Some (out, obj) \<Rightarrow> (Some out, store[a := obj]))
      else (None, store))"

fun deliverAll ::
  "(string \<Rightarrow> 'n) \<Rightarrow> (int \<Rightarrow> string) \<Rightarrow> 'n Store \<Rightarrow> nat \<Rightarrow> (RawMessage \<times> int) list
     \<Rightarrow> 'n MapOutput option list \<times> 'n Store" where
  "deliverAll Number String store a [] = ([], store)"
| "deliverAll Number String store a (m # ms) =
     (let (out, store1) = deliver Number String store a m;
          (outs, store2) = deliverAll Number String store1 a ms
      in (out # outs, store2))"

text \<open>
  A run of update messages, each given by its stream name, its update and its receipt
  time.
\<close>

definition updateMessages ::
  "(string \<times> BinanceDepthData \<times> int) list \<Rightarrow> (BinanceDepthPayload BinanceResponse \<times> int) list" where
  "updateMessages us = map (\<lambda>(str, upd, t). (updateMessage str upd, t)) us"

text \<open>
  A symbol that is still waiting for its snapshot, with a buffer in a state the buffer's
  own operations produce.
\<close>

definition buffering :: "BinanceBookChangeMapper \<Rightarrow> string \<Rightarrow> bool" where
  "buffering this symb \<longleftrightarrow>
     \<not> snapshotProcessed (depthInfo this symb) \<and> cb_inv (bufferedUpdates (depthInfo this symb))
     \<and> cb_bufferSize (bufferedUpdates (depthInfo this symb)) = 200"

text \<open>
  What \<^verbatim>\<open>mapBookDepthUpdate\<close> never writes: the constructor arguments, the set of
  symbols, and every field of an entry but \<^verbatim>\<open>validatedFirstUpdate\<close>.
\<close>

definition unvalidated :: "LocalDepthInfo \<Rightarrow> LocalDepthInfo" where
  "unvalidated i = i\<lparr>validatedFirstUpdate := False\<rparr>"

definition keeps :: "BinanceBookChangeMapper \<Rightarrow> BinanceBookChangeMapper \<Rightarrow> bool" where
  "keeps this this' \<longleftrightarrow>
     mapper_exchange this' = mapper_exchange this \<and>
     ignoreBookSnapshotOverlapError this' = ignoreBookSnapshotOverlapError this \<and>
     (\<forall>k. map_option unvalidated (symbolToDepthInfoMapping this' k)
          = map_option unvalidated (symbolToDepthInfoMapping this k))"

text \<open>The accumulator after the update operations of one message.\<close>

definition absorbed ::
  "(string \<Rightarrow> 'n) \<Rightarrow> 'n PendingTickerInfo \<Rightarrow> BinanceFuturesTickerPayload \<Rightarrow> 'n PendingTickerInfo" where
  "absorbed Number info0 payload =
     (case payload of
        MarkPriceData d \<Rightarrow>
          updateTimestamp
            (updateMarkPrice (updateFundingRate info0 (Number (mp_r d))) (Number (mp_p d)))
            (mp_E d)
      | TickerData d \<Rightarrow> updateTimestamp (updateLastPrice info0 (Number (tk_c d))) (tk_E d))"

text \<open>
  The accumulator of a symbol once the fields a message carries have been stored in it.
\<close>

definition stored ::
  "(string \<Rightarrow> 'n) \<Rightarrow> 'n PendingTickerInfo \<Rightarrow> BinanceFuturesTickerPayload \<Rightarrow> 'n PendingTickerInfo" where
  "stored Number old payload =
     (case payload of
        MarkPriceData d \<Rightarrow>
          old\<lparr>fundingRate := Some (Number (mp_r d)), markPrice := Some (Number (mp_p d)),
              pending_timestamp := Some (mp_E d)\<rparr>
      | TickerData d \<Rightarrow>
          old\<lparr>lastPrice := Some (Number (tk_c d)), pending_timestamp := Some (tk_E d)\<rparr>)"

text \<open>
  The mapper once \<^verbatim>\<open>map\<close> has recorded a first snapshot with id \<open>L\<close> for a symbol, the
  mapper once the symbol's buffer has been cleared, and what the replay of the buffered
  updates \<open>upds\<close> of a symbol comes to, in closed form: the updates with \<open>u > L\<close> are the
  ones not stale, and only the first of them is tested for overlap.
\<close>

definition snapshotApplied :: "BinanceBookChangeMapper \<Rightarrow> string \<Rightarrow> int \<Rightarrow> BinanceBookChangeMapper" where
  "snapshotApplied this symb L =
     modifyDepthInfo (withDepthInfo this symb) symb
       (\<lambda>i. i\<lparr>lastUpdateId := Some L, snapshotProcessed := True\<rparr>)"

definition bufferCleared :: "BinanceBookChangeMapper \<Rightarrow> string \<Rightarrow> BinanceBookChangeMapper" where
  "bufferCleared this symb =
     modifyDepthInfo this symb (\<lambda>i. i\<lparr>bufferedUpdates := clear (bufferedUpdates i)\<rparr>)"

definition replayed ::
  "(string \<Rightarrow> 'n) \<Rightarrow> BinanceBookChangeMapper \<Rightarrow> string \<Rightarrow> int \<Rightarrow> BinanceDepthData list \<Rightarrow> int
     \<Rightarrow> 'n MapResult" where
  "replayed Number this symb L upds localTs =
     (let fresh = filter (\<lambda>u. L < d_u u) upds;
          events = map (\<lambda>u. updateBookChange Number (mapper_exchange this) u localTs) fresh
      in if validatedFirstUpdate (depthInfo this symb) \<or> fresh = []
         then \<lparr>yielded = events, after = this, thrown = None\<rparr>
         else if overlaps (hd fresh) L
         then \<lparr>yielded = events, after = setValidated this symb, thrown = None\<rparr>
         else if ignoreBookSnapshotOverlapError this
         then \<lparr>yielded = events,
               after = (setValidated this symb)
                 \<lparr>debugLog := debugLog this @ [NoOverlap (hd fresh) (Some L) (mapper_exchange this)]\<rparr>,
               thrown = None\<rparr>
         else \<lparr>yielded = [], after = this,
               thrown = Some (Error (NoOverlap (hd fresh) (Some L) (mapper_exchange this)))\<rparr>)"

section \<open>Sums of doubles\<close>

lemma ulp_small: "a < 9007199254740992 \<Longrightarrow> ulp a = 1"
  by (subst ulp.simps) simp

lemma roundToDouble_exact:
  assumes "\<bar>n\<bar> < 9007199254740992"
  shows "roundToDouble n = n"
proof -
  have "ulp \<bar>n\<bar> = 1" using assms by (rule ulp_small)
  then show ?thesis by (simp add: roundToDouble_def Let_def sgn_if)
qed

lemma overlaps_exact:
  assumes "- 9007199254740992 \<le> L" "L < 9007199254740991"
  shows "overlaps upd L \<longleftrightarrow> (d_U upd \<le> L + 1 \<and> d_u upd \<ge> L + 1) \<or> L = - 1"
proof -
  have "\<bar>L + 1\<bar> < 9007199254740992" using assms by simp
  then show ?thesis by (simp add: overlaps_def roundToDouble_exact)
qed

section \<open>The ring buffer is a FIFO of its capacity\<close>

lemma items_rotate:
  assumes "cb_inv this"
  shows "items this = rotate (cb_index this) (cb_buffer this)"
proof (rule nth_equalityI)
  show "length (items this) = length (rotate (cb_index this) (cb_buffer this))"
    by (simp add: items_def)
next
  fix i assume "i < length (items this)"
  then have i: "i < length (cb_buffer this)" by (simp add: items_def)
  then have pos: "0 < length (cb_buffer this)" by (cases "cb_buffer this") auto
  have "(cb_index this + i) mod length (cb_buffer this) < length (cb_buffer this)"
    using pos by (rule mod_less_divisor)
  with i show "items this ! i = rotate (cb_index this) (cb_buffer this) ! i"
    by (simp add: items_def array_get_def nth_rotate)
qed

lemma items_not_full:
  assumes "cb_inv this" "length (cb_buffer this) < cb_bufferSize this"
  shows "items this = cb_buffer this"
  using assms by (simp add: items_rotate cb_inv_def)

lemma mod_step_last:
  fixes k n :: nat
  assumes "k < n"
  shows "(k + 1 + (n - 1)) mod n = k"
proof -
  have "k + 1 + (n - 1) = k + n" using assms by simp
  then show ?thesis using assms by simp
qed

lemma mod_step_other:
  fixes k n i :: nat
  assumes "k < n" "i < n - 1"
  shows "(k + 1 + i) mod n \<noteq> k"
proof (cases "k + 1 + i < n")
  case True
  then show ?thesis by simp
next
  case False
  then have "(k + 1 + i) mod n = (k + 1 + i - n) mod n"
    by (simp add: le_mod_geq)
  moreover have "k + 1 + i - n < n" using assms by simp
  ultimately have "(k + 1 + i) mod n = k + 1 + i - n" by simp
  then show ?thesis using assms False by simp
qed

lemma rotate_update_step:
  assumes k: "k < length xs"
  shows "rotate ((k + 1) mod length xs) (xs[k := v]) = tl (rotate k xs) @ [v]"
proof (rule nth_equalityI)
  show "length (rotate ((k + 1) mod length xs) (xs[k := v])) = length (tl (rotate k xs) @ [v])"
    using assms by simp
next
  fix i assume "i < length (rotate ((k + 1) mod length xs) (xs[k := v]))"
  then have i: "i < length xs" by simp
  let ?n = "length xs"
  let ?j = "(k + 1 + i) mod ?n"
  have pos: "0 < ?n" using i by (cases xs) auto
  have j: "?j < ?n" using pos by (rule mod_less_divisor)
  have lhs: "rotate ((k + 1) mod ?n) (xs[k := v]) ! i = (xs[k := v]) ! ?j"
    using i by (simp add: nth_rotate mod_add_left_eq)
  show "rotate ((k + 1) mod length xs) (xs[k := v]) ! i = (tl (rotate k xs) @ [v]) ! i"
  proof (cases "i = ?n - 1")
    case True
    then have "?j = k" using mod_step_last [OF k] by simp
    then have "(xs[k := v]) ! ?j = v" using k by simp
    moreover have "(tl (rotate k xs) @ [v]) ! i = v"
      using True by (simp add: nth_append)
    ultimately show ?thesis using lhs by simp
  next
    case False
    then have lt: "i < ?n - 1" using i by simp
    have ne: "?j \<noteq> k" using mod_step_other [OF k lt] .
    have "(xs[k := v]) ! ?j = xs ! ?j" using ne by simp
    moreover have "(tl (rotate k xs) @ [v]) ! i = rotate k xs ! (i + 1)"
      using lt by (simp add: nth_append nth_tl)
    moreover have "rotate k xs ! (i + 1) = xs ! ?j"
      using lt by (simp add: nth_rotate add.assoc)
    ultimately show ?thesis using lhs by simp
  qed
qed

lemma append_full:
  assumes "cb_inv this" "length (cb_buffer this) = cb_bufferSize this"
  shows "items (snd (append this v)) = tl (items this) @ [Some v]"
    and "cb_inv (snd (append this v))"
proof -
  let ?k = "cb_index this" and ?xs = "cb_buffer this"
  have k: "?k < length ?xs" using assms by (simp add: cb_inv_def)
  let ?this' = "snd (append this v)"
  have buf: "cb_buffer ?this' = ?xs[?k := Some v]"
    using k by (simp add: append_def array_set_def Let_def)
  have idx: "cb_index ?this' = (?k + 1) mod length ?xs"
    using assms by (simp add: append_def Let_def)
  have sz: "cb_bufferSize ?this' = cb_bufferSize this"
    by (simp add: append_def Let_def)
  have "None \<notin> set (?xs[?k := Some v])"
    using assms(1) by (auto simp: cb_inv_def dest!: set_update_subset_insert [THEN subsetD])
  then show inv: "cb_inv ?this'"
    using assms k by (simp add: cb_inv_def buf idx sz)
  show "items ?this' = tl (items this) @ [Some v]"
    using rotate_update_step [OF k, of "Some v"]
    by (simp add: items_rotate [OF inv] items_rotate [OF assms(1)] buf idx)
qed

lemma append_not_full:
  assumes "cb_inv this" "length (cb_buffer this) < cb_bufferSize this"
  shows "items (snd (append this v)) = items this @ [Some v]"
    and "cb_inv (snd (append this v))"
proof -
  let ?xs = "cb_buffer this"
  let ?this' = "snd (append this v)"
  have k: "cb_index this = length ?xs" using assms by (simp add: cb_inv_def)
  have buf: "cb_buffer ?this' = ?xs @ [Some v]"
    using k by (simp add: append_def array_set_def Let_def)
  have idx: "cb_index ?this' = (length ?xs + 1) mod cb_bufferSize this"
    using k by (simp add: append_def Let_def)
  have sz: "cb_bufferSize ?this' = cb_bufferSize this"
    by (simp add: append_def Let_def)
  show inv: "cb_inv ?this'"
    using assms by (auto simp: cb_inv_def buf idx sz)
  have "rotate (cb_index ?this') (?xs @ [Some v]) = ?xs @ [Some v]"
  proof (cases "length ?xs + 1 < cb_bufferSize this")
    case True
    then have "cb_index ?this' = length (?xs @ [Some v])" using idx by simp
    then show ?thesis by (metis rotate_id mod_self)
  next
    case False
    then have "length ?xs + 1 = cb_bufferSize this" using assms(2) by simp
    then have "cb_index ?this' = 0" using idx by simp
    then show ?thesis by simp
  qed
  then show "items ?this' = items this @ [Some v]"
    using items_rotate [OF inv] buf items_not_full [OF assms] by simp
qed


lemma length_items [simp]: "length (items this) = length (cb_buffer this)"
  by (simp add: items_def)

lemma lastN_short: "length xs \<le> k \<Longrightarrow> lastN k xs = xs"
  by (simp add: lastN_def)

lemma lastN_snoc_full: "length xs = k \<Longrightarrow> 0 < k \<Longrightarrow> lastN k (xs @ [v]) = tl xs @ [v]"
  by (cases xs) (simp_all add: lastN_def)

lemma lastN_lastN_append: "lastN k (lastN k xs @ ys) = lastN k (xs @ ys)"
proof (cases "length xs \<le> k")
  case True
  then show ?thesis by (simp add: lastN_short)
next
  case False
  then have "length xs + length ys - (length xs - k + k) + (length xs - k)
      = length xs + length ys - k" by simp
  then show ?thesis by (simp add: lastN_def)
qed

lemma items_append:
  assumes "cb_inv this"
  shows "items (snd (append this v)) = lastN (cb_bufferSize this) (items this @ [Some v])"
proof (cases "length (cb_buffer this) < cb_bufferSize this")
  case True
  then show ?thesis using append_not_full(1) [OF assms True] by (simp add: lastN_short)
next
  case False
  then have full: "length (cb_buffer this) = cb_bufferSize this"
    using assms by (simp add: cb_inv_def)
  have "0 < cb_bufferSize this" using assms by (simp add: cb_inv_def)
  then show ?thesis using append_full(1) [OF assms full] full
    by (simp add: lastN_snoc_full)
qed

lemma cb_inv_append:
  assumes "cb_inv this"
  shows "cb_inv (snd (append this v))"
  using append_full(2) [OF assms] append_not_full(2) [OF assms] assms
  by (cases "length (cb_buffer this) < cb_bufferSize this") (auto simp: cb_inv_def)

lemma cb_bufferSize_append [simp]: "cb_bufferSize (snd (append this v)) = cb_bufferSize this"
  by (simp add: append_def Let_def)

lemma cb_inv_new: "0 < n \<Longrightarrow> cb_inv (new_CircularBuffer n)"
  by (simp add: cb_inv_def new_CircularBuffer_def)


section \<open>Book-change mapper: one call of map\<close>

lemma withDepthInfo_lookup:
  "symbolToDepthInfoMapping (withDepthInfo this symb) symb = Some (depthInfo this symb)"
  by (simp add: withDepthInfo_def depthInfo_def split: option.splits)

lemma withDepthInfo_present:
  "symbolToDepthInfoMapping this symb = Some i \<Longrightarrow> withDepthInfo this symb = this"
  by (simp add: withDepthInfo_def)

lemma depthInfo_modify:
  "depthInfo (modifyDepthInfo (withDepthInfo this symb) symb f) symb = f (depthInfo this symb)"
  by (simp add: modifyDepthInfo_def withDepthInfo_lookup depthInfo_def)

lemma mapDepth_update_buffered:
  assumes "\<not> snapshotProcessed (depthInfo this symb)" and "streamSymbol str = symb"
  shows "mapDepth Number this (updateMessage str upd) t =
     \<lparr>yielded = [],
      after = modifyDepthInfo (withDepthInfo this symb) symb
        (\<lambda>i. i\<lparr>bufferedUpdates := snd (append (bufferedUpdates i) upd)\<rparr>),
      thrown = None\<rparr>"
  using assms by (simp add: mapDepth_def updateMessage_def withDepthInfo_lookup Let_def)

lemma buffering_step:
  fixes Number :: "string \<Rightarrow> 'n" and upd t
  assumes "buffering this symb" and "streamSymbol str = symb"
  defines "r \<equiv> mapDepth Number this (updateMessage str upd) t"
  shows "yielded r = []" and "thrown r = None" and "buffering (after r) symb"
    and "bufferedItems (after r) symb = lastN 200 (bufferedItems this symb @ [Some upd])"
proof -
  have np: "\<not> snapshotProcessed (depthInfo this symb)" using assms(1) by (simp add: buffering_def)
  have inv: "cb_inv (bufferedUpdates (depthInfo this symb))" using assms(1) by (simp add: buffering_def)
  have sz: "cb_bufferSize (bufferedUpdates (depthInfo this symb)) = 200"
    using assms(1) by (simp add: buffering_def)
  note eq = mapDepth_update_buffered [OF np assms(2), of Number upd t]
  show "yielded r = []" "thrown r = None" by (simp_all add: r_def eq)
  have di: "depthInfo (after r) symb =
      (depthInfo this symb)\<lparr>bufferedUpdates := snd (append (bufferedUpdates (depthInfo this symb)) upd)\<rparr>"
    by (simp add: r_def eq depthInfo_modify)
  show "buffering (after r) symb"
    using np sz cb_inv_append [OF inv, of upd] by (simp add: buffering_def di)
  show "bufferedItems (after r) symb = lastN 200 (bufferedItems this symb @ [Some upd])"
    using items_append [OF inv, of upd] sz by (simp add: bufferedItems_def di)
qed

lemma buffering_run:
  assumes "buffering this symb" and "\<forall>u \<in> set us. streamSymbol (fst u) = symb"
  shows "yielded (mapAll Number this (updateMessages us)) = []
     \<and> thrown (mapAll Number this (updateMessages us)) = None
     \<and> bufferedItems (after (mapAll Number this (updateMessages us))) symb
         = lastN 200 (bufferedItems this symb @ map (\<lambda>u. Some (fst (snd u))) us)"
  using assms
proof (induction us arbitrary: this)
  case Nil
  then have "length (bufferedItems this symb) \<le> 200"
    by (auto simp: buffering_def bufferedItems_def cb_inv_def split: if_splits)
  then show ?case by (simp add: updateMessages_def lastN_short)
next
  case (Cons u us)
  obtain str upd t where u: "u = (str, upd, t)" by (cases u)
  have s: "streamSymbol str = symb" using Cons.prems(2) u by simp
  let ?r = "mapDepth Number this (updateMessage str upd) t"
  note st = buffering_step [OF Cons.prems(1) s, of Number upd t]
  have rest: "\<forall>u \<in> set us. streamSymbol (fst u) = symb" using Cons.prems(2) by simp
  note ih = Cons.IH [OF st(3) rest]
  have unf: "mapAll Number this (updateMessages ((str, upd, t) # us)) =
      (mapAll Number (after ?r) (updateMessages us))
        \<lparr>yielded := yielded ?r @ yielded (mapAll Number (after ?r) (updateMessages us))\<rparr>"
    using st(2) by (simp add: updateMessages_def Let_def)
  show ?case
    unfolding u using ih st(1) by (simp add: unf st(4) lastN_lastN_append)
qed

lemma buffering_new:
  "symbolToDepthInfoMapping this symb = None \<Longrightarrow> buffering this symb"
  by (simp add: buffering_def depthInfo_def new_LocalDepthInfo_def cb_inv_def new_CircularBuffer_def)

lemma bufferedItems_new:
  "symbolToDepthInfoMapping this symb = None \<Longrightarrow> bufferedItems this symb = []"
  by (simp add: bufferedItems_def depthInfo_def new_LocalDepthInfo_def items_def new_CircularBuffer_def)

lemma mapBookDepthUpdate_stale:
  assumes "symbolToDepthInfoMapping this (d_s upd) = Some info" "lastUpdateId info = Some L"
    "d_u upd \<le> L"
  shows "mapBookDepthUpdate Number this upd t = Inr (None, this)"
  using assms by (simp add: mapBookDepthUpdate_def Let_def)

lemma mapBookDepthUpdate_validated:
  assumes "symbolToDepthInfoMapping this (d_s upd) = Some info" "lastUpdateId info = Some L"
    "L < d_u upd" "validatedFirstUpdate info"
  shows "mapBookDepthUpdate Number this upd t =
    Inr (Some (updateBookChange Number (mapper_exchange this) upd t), this)"
  using assms by (simp add: mapBookDepthUpdate_def Let_def)

lemma mapBookDepthUpdate_first:
  assumes "symbolToDepthInfoMapping this (d_s upd) = Some info" "lastUpdateId info = Some L"
    "L < d_u upd" "\<not> validatedFirstUpdate info"
  shows "mapBookDepthUpdate Number this upd t =
    (if overlaps upd L
     then Inr (Some (updateBookChange Number (mapper_exchange this) upd t),
            setValidated this (d_s upd))
     else if ignoreBookSnapshotOverlapError this
     then Inr (Some (updateBookChange Number (mapper_exchange this) upd t),
            (setValidated this (d_s upd))
              \<lparr>debugLog := debugLog this @ [NoOverlap upd (Some L) (mapper_exchange this)]\<rparr>)
     else Inl (Error (NoOverlap upd (Some L) (mapper_exchange this))))"
  using assms by (simp add: mapBookDepthUpdate_def Let_def overlaps_def)

lemma mapDepth_live_update:
  assumes "symbolToDepthInfoMapping this symb = Some info" "snapshotProcessed info"
    "streamSymbol str = symb"
  shows "mapDepth Number this (updateMessage str upd) t =
    (case mapBookDepthUpdate Number this upd t of
       Inl e \<Rightarrow> \<lparr>yielded = [], after = this, thrown = Some e\<rparr>
     | Inr (bookChange, this') \<Rightarrow>
         \<lparr>yielded = (case bookChange of None \<Rightarrow> [] | Some bc \<Rightarrow> [bc]),
          after = this', thrown = None\<rparr>)"
  using assms
  by (simp add: mapDepth_def updateMessage_def withDepthInfo_present Let_def split: sum.splits)

lemma streamSymbol_btcusdt: "streamSymbol ''btcusdt@depth'' = ''BTCUSDT''"
  by (simp add: streamSymbol_def toUpperCase_def toUpperChar_def)

section \<open>Book-change mapper: replay of the buffer\<close>

lemma keeps_refl: "keeps this this"
  by (simp add: keeps_def)

lemma keeps_trans: "keeps a b \<Longrightarrow> keeps b c \<Longrightarrow> keeps a c"
  by (simp add: keeps_def)

lemma keeps_setValidated: "keeps this (setValidated this key)"
  by (simp add: keeps_def setValidated_def unvalidated_def split: option.splits)

lemma keeps_debugLog: "keeps this this' \<Longrightarrow> keeps this (this'\<lparr>debugLog := l\<rparr>)"
  by (simp add: keeps_def)

lemma mapBookDepthUpdate_keeps:
  assumes "mapBookDepthUpdate Number this upd t = Inr (bc, this')"
  shows "keeps this this'"
  using assms keeps_refl [of this] keeps_setValidated [of this "d_s upd"]
  by (auto simp: mapBookDepthUpdate_def Let_def keeps_debugLog split: option.splits if_splits)

lemma mapBookDepthUpdate_event:
  assumes "mapBookDepthUpdate Number this upd t = Inr (Some bc, this')"
  shows "bc = updateBookChange Number (mapper_exchange this) upd t"
  using assms
  by (auto simp: mapBookDepthUpdate_def Let_def split: option.splits if_splits)

lemma replay_keeps: "keeps this (after (replay Number this xs t))"
proof (induction xs arbitrary: this)
  case Nil
  show ?case by (simp add: keeps_refl)
next
  case (Cons x xs)
  show ?case
  proof (cases x)
    case None
    then show ?thesis by (simp add: keeps_refl)
  next
    case (Some upd)
    show ?thesis
    proof (cases "mapBookDepthUpdate Number this upd t")
      case (Inl e)
      then show ?thesis using Some by (simp add: keeps_refl)
    next
      case (Inr p)
      obtain bc this' where p: "p = (bc, this')" by (cases p)
      have "keeps this this'" using Inr p by (simp add: mapBookDepthUpdate_keeps)
      moreover have "keeps this' (after (replay Number this' xs t))" by (rule Cons.IH)
      ultimately show ?thesis using Some Inr p by (simp add: Let_def keeps_trans)
    qed
  qed
qed

lemma replay_events:
  "length (yielded (replay Number this xs t)) \<le> length xs
   \<and> (\<forall>e \<in> set (yielded (replay Number this xs t)). \<not> isSnapshot e)"
proof (induction xs arbitrary: this)
  case Nil
  show ?case by simp
next
  case (Cons x xs)
  show ?case
  proof (cases x)
    case None
    then show ?thesis by simp
  next
    case (Some upd)
    show ?thesis
    proof (cases "mapBookDepthUpdate Number this upd t")
      case (Inl e)
      then show ?thesis using Some by simp
    next
      case (Inr p)
      obtain bc this' where p: "p = (bc, this')" by (cases p)
      note ih = Cons.IH [of this']
      show ?thesis
      proof (cases bc)
        case None
        then show ?thesis using Some Inr p ih by (simp add: Let_def)
      next
        case (Some b)
        then have "b = updateBookChange Number (mapper_exchange this) upd t"
          using Inr p mapBookDepthUpdate_event by blast
        then have "\<not> isSnapshot b" by (simp add: updateBookChange_def)
        then show ?thesis using \<open>x = Some upd\<close> Some Inr p ih by (simp add: Let_def)
      qed
    qed
  qed
qed


lemma unvalidated_fields [simp]:
  "lastUpdateId (unvalidated i) = lastUpdateId i"
  "snapshotProcessed (unvalidated i) = snapshotProcessed i"
  "bufferedUpdates (unvalidated i) = bufferedUpdates i"
  by (simp_all add: unvalidated_def)

lemma keeps_lookup:
  assumes "keeps this this'" "symbolToDepthInfoMapping this k = Some i"
  shows "\<exists>i'. symbolToDepthInfoMapping this' k = Some i' \<and> unvalidated i' = unvalidated i"
proof -
  have "map_option unvalidated (symbolToDepthInfoMapping this' k) = Some (unvalidated i)"
    using assms by (simp add: keeps_def)
  then show ?thesis by (cases "symbolToDepthInfoMapping this' k") auto
qed

lemma keeps_fields:
  assumes "keeps this this'" "symbolToDepthInfoMapping this k = Some i"
  obtains i' where "symbolToDepthInfoMapping this' k = Some i'"
    "lastUpdateId i' = lastUpdateId i" "snapshotProcessed i' = snapshotProcessed i"
    "bufferedUpdates i' = bufferedUpdates i"
proof -
  obtain i' where l: "symbolToDepthInfoMapping this' k = Some i'" and u: "unvalidated i' = unvalidated i"
    using keeps_lookup [OF assms] by blast
  have "lastUpdateId (unvalidated i') = lastUpdateId (unvalidated i)"
    "snapshotProcessed (unvalidated i') = snapshotProcessed (unvalidated i)"
    "bufferedUpdates (unvalidated i') = bufferedUpdates (unvalidated i)"
    using u by simp_all
  then show thesis using that [OF l] by simp
qed

lemma mapBookDepthUpdate_result:
  assumes "symbolToDepthInfoMapping this (d_s upd) = Some i" "lastUpdateId i = Some L"
    "mapBookDepthUpdate Number this upd t = Inr (bc, this')"
  shows "bc = (if d_u upd \<le> L then None
               else Some (updateBookChange Number (mapper_exchange this) upd t))"
  using assms by (auto simp: mapBookDepthUpdate_def Let_def split: if_splits)

lemma mapBookDepthUpdate_tolerant:
  assumes "symbolToDepthInfoMapping this (d_s upd) = Some i" "ignoreBookSnapshotOverlapError this"
  shows "\<exists>p. mapBookDepthUpdate Number this upd t = Inr p"
  using assms by (simp add: mapBookDepthUpdate_def Let_def)

lemma replay_filter:
  assumes "symbolToDepthInfoMapping this symb = Some i" "lastUpdateId i = Some L"
    "\<forall>u \<in> set upds. d_s u = symb" "thrown (replay Number this (map Some upds) t) = None"
  shows "yielded (replay Number this (map Some upds) t) =
    map (\<lambda>u. updateBookChange Number (mapper_exchange this) u t) (filter (\<lambda>u. L < d_u u) upds)"
  using assms
proof (induction upds arbitrary: this i)
  case Nil
  show ?case by simp
next
  case (Cons upd upds)
  have s: "d_s upd = symb" using Cons.prems(3) by simp
  show ?case
  proof (cases "mapBookDepthUpdate Number this upd t")
    case (Inl e)
    then show ?thesis using Cons.prems(4) by simp
  next
    case (Inr p)
    obtain bc this' where p: "p = (bc, this')" by (cases p)
    have step: "mapBookDepthUpdate Number this upd t = Inr (bc, this')" using Inr p by simp
    have k: "keeps this this'" using step by (rule mapBookDepthUpdate_keeps)
    obtain i' where i': "symbolToDepthInfoMapping this' symb = Some i'" "lastUpdateId i' = Some L"
      using keeps_fields [OF k Cons.prems(1)] Cons.prems(2) by metis
    have ex: "mapper_exchange this' = mapper_exchange this" using k by (simp add: keeps_def)
    have bc: "bc = (if d_u upd \<le> L then None
               else Some (updateBookChange Number (mapper_exchange this) upd t))"
      using mapBookDepthUpdate_result [OF _ Cons.prems(2) step] Cons.prems(1) s by simp
    have thr: "thrown (replay Number this' (map Some upds) t) = None"
      using Cons.prems(4) step by (simp add: Let_def)
    have rest: "\<forall>u \<in> set upds. d_s u = symb" using Cons.prems(3) by simp
    note ih = Cons.IH [OF i' rest thr]
    show ?thesis using step ih bc ex by (simp add: Let_def)
  qed
qed

lemma replay_tolerant:
  assumes "symbolToDepthInfoMapping this symb = Some i" "ignoreBookSnapshotOverlapError this"
    "\<forall>u \<in> set upds. d_s u = symb"
  shows "thrown (replay Number this (map Some upds) t) = None"
  using assms
proof (induction upds arbitrary: this i)
  case Nil
  show ?case by simp
next
  case (Cons upd upds)
  have s: "d_s upd = symb" using Cons.prems(3) by simp
  obtain p where "mapBookDepthUpdate Number this upd t = Inr p"
    using mapBookDepthUpdate_tolerant [of this upd i Number t] Cons.prems(1,2) s by auto
  moreover obtain bc this' where p: "p = (bc, this')" by (cases p)
  ultimately have step: "mapBookDepthUpdate Number this upd t = Inr (bc, this')" by simp
  have k: "keeps this this'" using step by (rule mapBookDepthUpdate_keeps)
  obtain i' where i': "symbolToDepthInfoMapping this' symb = Some i'"
    using keeps_fields [OF k Cons.prems(1)] by metis
  have ig: "ignoreBookSnapshotOverlapError this'" using k Cons.prems(2) by (simp add: keeps_def)
  have rest: "\<forall>u \<in> set upds. d_s u = symb" using Cons.prems(3) by simp
  show ?case using step Cons.IH [OF i' ig rest] by (simp add: Let_def)
qed


lemma depthInfo_present:
  "symbolToDepthInfoMapping this symb = Some i \<Longrightarrow> depthInfo this symb = i"
  by (simp add: depthInfo_def)

lemma modifyDepthInfo_lookup:
  "symbolToDepthInfoMapping this symb = Some i \<Longrightarrow>
   symbolToDepthInfoMapping (modifyDepthInfo this symb f) symb = Some (f i)"
  by (simp add: modifyDepthInfo_def)

lemma modifyDepthInfo_exchange [simp]:
  "mapper_exchange (modifyDepthInfo this symb f) = mapper_exchange this"
  "ignoreBookSnapshotOverlapError (modifyDepthInfo this symb f) = ignoreBookSnapshotOverlapError this"
  by (simp_all add: modifyDepthInfo_def split: option.splits)

lemma withDepthInfo_exchange [simp]:
  "mapper_exchange (withDepthInfo this symb) = mapper_exchange this"
  "ignoreBookSnapshotOverlapError (withDepthInfo this symb) = ignoreBookSnapshotOverlapError this"
  by (simp_all add: withDepthInfo_def)

lemma items_clear [simp]: "items (clear cb) = []"
  by (simp add: items_def clear_def)

lemma mapDepth_first_snapshot:
  assumes "\<not> snapshotProcessed (depthInfo this symb)" "streamSymbol str = symb"
  shows "mapDepth Number this (snapshotMessage str snap) t =
    (let bookChange = snapshotBookChange Number (mapper_exchange this) symb snap t;
         this1 = modifyDepthInfo (withDepthInfo this symb) symb
           (\<lambda>i. i\<lparr>lastUpdateId := Some (snapshot_lastUpdateId snap), snapshotProcessed := True\<rparr>);
         r = replay Number this1 (bufferedItems this symb) t
     in case thrown r of
          Some e \<Rightarrow> r\<lparr>yielded := bookChange # yielded r\<rparr>
        | None \<Rightarrow>
            \<lparr>yielded = bookChange # yielded r,
             after = modifyDepthInfo (after r) symb
               (\<lambda>i. i\<lparr>bufferedUpdates := clear (bufferedUpdates i)\<rparr>),
             thrown = None\<rparr>)"
  using assms
  by (simp add: mapDepth_def snapshotMessage_def withDepthInfo_lookup Let_def bufferedItems_def)

lemma streaming_step:
  assumes "symbolToDepthInfoMapping this symb = Some info" "snapshotProcessed info"
    "validatedFirstUpdate info" "lastUpdateId info = Some L"
    "streamSymbol str = symb" "d_s upd = symb"
  shows "mapDepth Number this (updateMessage str upd) t =
    \<lparr>yielded = (if L < d_u upd then [updateBookChange Number (mapper_exchange this) upd t] else []),
     after = this, thrown = None\<rparr>"
proof (cases "L < d_u upd")
  case True
  have ctx: "symbolToDepthInfoMapping this (d_s upd) = Some info" using assms by simp
  show ?thesis using True
    by (simp add: mapDepth_live_update [OF assms(1,2,5)]
        mapBookDepthUpdate_validated [OF ctx assms(4) True assms(3)])
next
  case False
  then have "d_u upd \<le> L" by simp
  then have "mapBookDepthUpdate Number this upd t = Inr (None, this)"
    using assms by (intro mapBookDepthUpdate_stale [where info = info and L = L]) simp_all
  then show ?thesis using False
    by (simp add: mapDepth_live_update [OF assms(1,2,5)])
qed

section \<open>Derivative ticker mapper: one call of map\<close>

lemma hasChanged_updates:
  "hasChanged (updateFundingRate i v) = (hasChanged i \<or> fundingRate i \<noteq> Some v)"
  "hasChanged (updateMarkPrice i v) = (hasChanged i \<or> markPrice i \<noteq> Some v)"
  "hasChanged (updateLastPrice i v) = (hasChanged i \<or> lastPrice i \<noteq> Some v)"
  "hasChanged (updateTimestamp i e) = (hasChanged i \<or> pending_timestamp i \<noteq> Some e)"
  by (auto simp: hasChanged_def updateFundingRate_def updateMarkPrice_def updateLastPrice_def
      updateTimestamp_def)

lemma accumulated_updates:
  "accumulated (updateFundingRate i v) = (Some v, markPrice i, lastPrice i, pending_timestamp i)"
  "accumulated (updateMarkPrice i v) = (fundingRate i, Some v, lastPrice i, pending_timestamp i)"
  "accumulated (updateLastPrice i v) = (fundingRate i, markPrice i, Some v, pending_timestamp i)"
  "accumulated (updateTimestamp i e) = (fundingRate i, markPrice i, lastPrice i, Some e)"
  by (auto simp: accumulated_def updateFundingRate_def updateMarkPrice_def updateLastPrice_def
      updateTimestamp_def)

lemma update_fields:
  "markPrice (updateFundingRate i v) = markPrice i"
  "lastPrice (updateFundingRate i v) = lastPrice i"
  "pending_timestamp (updateFundingRate i v) = pending_timestamp i"
  "fundingRate (updateFundingRate i v) = Some v"
  "fundingRate (updateMarkPrice i v) = fundingRate i"
  "lastPrice (updateMarkPrice i v) = lastPrice i"
  "pending_timestamp (updateMarkPrice i v) = pending_timestamp i"
  "markPrice (updateMarkPrice i v) = Some v"
  "fundingRate (updateLastPrice i v) = fundingRate i"
  "markPrice (updateLastPrice i v) = markPrice i"
  "pending_timestamp (updateLastPrice i v) = pending_timestamp i"
  "lastPrice (updateLastPrice i v) = Some v"
  "fundingRate (updateTimestamp i e) = fundingRate i"
  "markPrice (updateTimestamp i e) = markPrice i"
  "lastPrice (updateTimestamp i e) = lastPrice i"
  "pending_timestamp (updateTimestamp i e) = Some e"
  by (auto simp: updateFundingRate_def updateMarkPrice_def updateLastPrice_def
      updateTimestamp_def)

lemma getPendingTickerInfo_fst:
  "fst (getPendingTickerInfo (pendingTickerInfoHelper this) symb ''binance-futures'')
     = pendingInfo this symb"
  by (simp add: getPendingTickerInfo_def pendingInfo_def split: option.splits)

lemma mapTicker_absorbed:
  "mapTicker Number this message t =
     (let symb = payload_s (data message);
          info2 = absorbed Number (pendingInfo this symb) (data message);
          helper = snd (getPendingTickerInfo (pendingTickerInfoHelper this) symb ''binance-futures'')
      in if hasChanged info2
         then ([fst (getSnapshot info2 t)],
               this\<lparr>pendingTickerInfoHelper := helper(symb \<mapsto> snd (getSnapshot info2 t))\<rparr>)
         else ([], this\<lparr>pendingTickerInfoHelper := helper(symb \<mapsto> info2)\<rparr>))"
  using getPendingTickerInfo_fst [of this "payload_s (data message)"]
  by (cases "data message")
    (auto simp: mapTicker_def absorbed_def Let_def split: prod.splits)

lemma absorbed_changed:
  "hasChanged (absorbed Number i p) =
     (hasChanged i \<or> accumulated (absorbed Number i p) \<noteq> accumulated i)"
  by (cases p)
    (auto simp: absorbed_def hasChanged_updates accumulated_updates update_fields accumulated_def)

lemma absorbed_twice:
  "accumulated (absorbed Number (absorbed Number i p) p) = accumulated (absorbed Number i p)"
  by (cases p) (simp_all add: absorbed_def accumulated_updates update_fields)

lemma getSnapshot_snd:
  "\<not> hasChanged (snd (getSnapshot i t))" "accumulated (snd (getSnapshot i t)) = accumulated i"
  by (simp_all add: getSnapshot_def hasChanged_def accumulated_def)

lemma absorbed_cong:
  "accumulated i = accumulated j \<Longrightarrow> accumulated (absorbed Number i p) = accumulated (absorbed Number j p)"
  by (cases p) (simp_all add: absorbed_def accumulated_updates update_fields accumulated_def)

lemma pendingInfo_after:
  "pendingInfo (snd (mapTicker Number this message t)) (payload_s (data message)) =
     (let info2 = absorbed Number (pendingInfo this (payload_s (data message))) (data message)
      in if hasChanged info2 then snd (getSnapshot info2 t) else info2)"
  by (simp add: mapTicker_absorbed Let_def pendingInfo_def)

lemma mapTicker_keeps_clean:
  assumes "\<forall>s. \<not> hasChanged (pendingInfo this s)"
  shows "\<forall>s. \<not> hasChanged (pendingInfo (snd (mapTicker Number this message t)) s)"
proof
  fix s
  show "\<not> hasChanged (pendingInfo (snd (mapTicker Number this message t)) s)"
  proof (cases "s = payload_s (data message)")
    case True
    then show ?thesis
      using pendingInfo_after [of Number this message t]
      by (simp add: Let_def getSnapshot_snd)
  next
    case False
    then have "pendingInfo (snd (mapTicker Number this message t)) s = pendingInfo this s"
      by (simp add: mapTicker_absorbed Let_def pendingInfo_def getPendingTickerInfo_def
          split: option.splits)
    then show ?thesis using assms by simp
  qed
qed

lemma new_mapper_clean:
  "\<not> hasChanged (pendingInfo new_BinanceFuturesDerivativeTickerMapper s)"
  by (simp add: pendingInfo_def new_BinanceFuturesDerivativeTickerMapper_def
      new_PendingTickerInfo_def hasChanged_def)

lemma replay_validated:
  assumes "symbolToDepthInfoMapping this symb = Some i" "lastUpdateId i = Some L"
    "validatedFirstUpdate i" "\<forall>u \<in> set upds. d_s u = symb"
  shows "replay Number this (map Some upds) t =
    \<lparr>yielded = map (\<lambda>u. updateBookChange Number (mapper_exchange this) u t)
                 (filter (\<lambda>u. L < d_u u) upds),
     after = this, thrown = None\<rparr>"
  using assms(4)
proof (induction upds)
  case Nil
  show ?case by simp
next
  case (Cons u us)
  have ctx: "symbolToDepthInfoMapping this (d_s u) = Some i" using Cons.prems assms(1) by simp
  have ih: "replay Number this (map Some us) t =
    \<lparr>yielded = map (\<lambda>u. updateBookChange Number (mapper_exchange this) u t)
                 (filter (\<lambda>u. L < d_u u) us),
     after = this, thrown = None\<rparr>"
    using Cons by simp
  show ?case
  proof (cases "L < d_u u")
    case True
    show ?thesis
      using True ih
      by (simp add: mapBookDepthUpdate_validated [OF ctx assms(2) True assms(3)] Let_def)
  next
    case False
    then have st: "d_u u \<le> L" by simp
    show ?thesis
      using False ih
      by (simp add: mapBookDepthUpdate_stale [OF ctx assms(2) st] Let_def)
  qed
qed

lemma setValidated_lookup:
  "symbolToDepthInfoMapping this symb = Some i \<Longrightarrow>
   symbolToDepthInfoMapping (setValidated this symb) symb = Some (i\<lparr>validatedFirstUpdate := True\<rparr>)"
  by (simp add: setValidated_def)

lemma setValidated_exchange [simp]:
  "mapper_exchange (setValidated this symb) = mapper_exchange this"
  "ignoreBookSnapshotOverlapError (setValidated this symb) = ignoreBookSnapshotOverlapError this"
  "debugLog (setValidated this symb) = debugLog this"
  by (simp_all add: setValidated_def split: option.splits)

lemma replay_exact:
  assumes "symbolToDepthInfoMapping this symb = Some i" "lastUpdateId i = Some L"
    "\<forall>u \<in> set upds. d_s u = symb"
  shows "replay Number this (map Some upds) t = replayed Number this symb L upds t"
  using assms(3)
proof (induction upds)
  case Nil
  show ?case by (simp add: replayed_def)
next
  case (Cons u us)
  have di: "depthInfo this symb = i" using assms(1) by (simp add: depthInfo_def)
  have ctx: "symbolToDepthInfoMapping this (d_s u) = Some i" using Cons.prems assms(1) by simp
  have s: "d_s u = symb" using Cons.prems by simp
  have rest: "\<forall>u \<in> set us. d_s u = symb" using Cons.prems by simp
  have ih: "replay Number this (map Some us) t = replayed Number this symb L us t"
    using Cons by simp
  show ?case
  proof (cases "validatedFirstUpdate i")
    case True
    show ?thesis
      using replay_validated [OF assms(1,2) True Cons.prems, of Number t] True
      by (simp add: replayed_def di Let_def)
  next
    case nv: False
    show ?thesis
    proof (cases "L < d_u u")
      case False
      then have st: "d_u u \<le> L" by simp
      show ?thesis
        using False ih
        by (simp add: mapBookDepthUpdate_stale [OF ctx assms(2) st] Let_def replayed_def)
    next
      case True
      note first = mapBookDepthUpdate_first [OF ctx assms(2) True nv, of Number t]
      let ?v = "setValidated this symb"
      have lv: "symbolToDepthInfoMapping ?v symb = Some (i\<lparr>validatedFirstUpdate := True\<rparr>)"
        using assms(1) by (rule setValidated_lookup)
      note rv = replay_validated [OF lv _ _ rest, of L Number t]
      let ?m = "NoOverlap u (Some L) (mapper_exchange this)"
      let ?vl = "?v\<lparr>debugLog := debugLog this @ [?m]\<rparr>"
      have lvl: "symbolToDepthInfoMapping ?vl symb = Some (i\<lparr>validatedFirstUpdate := True\<rparr>)"
        using lv by simp
      note rvl = replay_validated [OF lvl _ _ rest, of L Number t]
      show ?thesis
      proof (cases "overlaps u L")
        case ov: True
        show ?thesis
          using True nv ov rv assms(2)
          by (simp add: first s Let_def replayed_def di)
      next
        case nov: False
        show ?thesis
        proof (cases "ignoreBookSnapshotOverlapError this")
          case ig: True
          show ?thesis
            using True nv nov ig rvl assms(2)
            by (simp add: first s Let_def replayed_def di)
        next
          case strict: False
          show ?thesis
            using True nv nov strict
            by (simp add: first s Let_def replayed_def di)
        qed
      qed
    qed
  qed
qed


lemma snapshotApplied_lookup:
  "symbolToDepthInfoMapping (snapshotApplied this symb L) symb =
     Some ((depthInfo this symb)\<lparr>lastUpdateId := Some L, snapshotProcessed := True\<rparr>)"
  by (simp add: snapshotApplied_def modifyDepthInfo_lookup [OF withDepthInfo_lookup])

lemma snapshotApplied_fields [simp]:
  "mapper_exchange (snapshotApplied this symb L) = mapper_exchange this"
  "ignoreBookSnapshotOverlapError (snapshotApplied this symb L) = ignoreBookSnapshotOverlapError this"
  "debugLog (snapshotApplied this symb L) = debugLog this"
  by (simp_all add: snapshotApplied_def modifyDepthInfo_def withDepthInfo_def split: option.splits)

lemma snapshotApplied_depthInfo:
  "depthInfo (snapshotApplied this symb L) symb =
     (depthInfo this symb)\<lparr>lastUpdateId := Some L, snapshotProcessed := True\<rparr>"
  by (simp add: depthInfo_present [OF snapshotApplied_lookup])

lemma first_snapshot_exact:
  assumes "\<not> snapshotProcessed (depthInfo this symb)"
    and "bufferedItems this symb = map Some upds"
    and "streamSymbol str = symb"
    and "\<forall>u \<in> set upds. d_s u = symb"
  shows "mapDepth Number this (snapshotMessage str snap) t =
    (let L = snapshot_lastUpdateId snap;
         bookChange = snapshotBookChange Number (mapper_exchange this) symb snap t;
         r = replayed Number (snapshotApplied this symb L) symb L upds t
     in case thrown r of
          Some e \<Rightarrow> r\<lparr>yielded := bookChange # yielded r\<rparr>
        | None \<Rightarrow>
            \<lparr>yielded = bookChange # yielded r, after = bufferCleared (after r) symb,
             thrown = None\<rparr>)"
proof -
  let ?L = "snapshot_lastUpdateId snap"
  have re: "replay Number (snapshotApplied this symb ?L) (map Some upds) t
      = replayed Number (snapshotApplied this symb ?L) symb ?L upds t"
    by (rule replay_exact [OF snapshotApplied_lookup _ assms(4)]) simp
  have m: "mapDepth Number this (snapshotMessage str snap) t =
    (case thrown (replay Number (snapshotApplied this symb ?L) (map Some upds) t) of
       Some e \<Rightarrow> (replay Number (snapshotApplied this symb ?L) (map Some upds) t)
         \<lparr>yielded := snapshotBookChange Number (mapper_exchange this) symb snap t
            # yielded (replay Number (snapshotApplied this symb ?L) (map Some upds) t)\<rparr>
     | None \<Rightarrow>
         \<lparr>yielded = snapshotBookChange Number (mapper_exchange this) symb snap t
            # yielded (replay Number (snapshotApplied this symb ?L) (map Some upds) t),
          after = bufferCleared
            (after (replay Number (snapshotApplied this symb ?L) (map Some upds) t)) symb,
          thrown = None\<rparr>)"
    unfolding snapshotApplied_def bufferCleared_def
    using mapDepth_first_snapshot [OF assms(1,3), of Number snap t]
    by (simp add: assms(2) Let_def split: option.splits)
  show ?thesis
    unfolding m re by (simp add: Let_def)
qed

lemma bufferedItems_snapshotApplied:
  "bufferedItems (snapshotApplied this symb L) symb = bufferedItems this symb"
  by (simp add: bufferedItems_def snapshotApplied_depthInfo)

lemma first_snapshot_general:
  assumes "\<not> snapshotProcessed (depthInfo this symb)"
    and "bufferedItems this symb = map Some upds"
    and "streamSymbol str = symb"
  shows "let r = mapDepth Number this (snapshotMessage str snap) t;
             L = snapshot_lastUpdateId snap
         in (\<exists>rest.
               yielded r = snapshotBookChange Number (mapper_exchange this) symb snap t # rest
               \<and> length rest \<le> length upds
               \<and> (\<forall>e \<in> set rest. \<not> isSnapshot e)
               \<and> ((\<forall>u \<in> set upds. d_s u = symb) \<and> thrown r = None \<longrightarrow>
                    rest = map (\<lambda>u. updateBookChange Number (mapper_exchange this) u t)
                             (filter (\<lambda>u. L < d_u u) upds)))
            \<and> snapshotProcessed (depthInfo (after r) symb)
            \<and> lastUpdateId (depthInfo (after r) symb) = Some L
            \<and> (thrown r = None \<longrightarrow>
                 bufferedItems (after r) symb = []
                 \<and> count (bufferedUpdates (depthInfo (after r) symb)) = 0)
            \<and> ((\<forall>u \<in> set upds. d_s u = symb) \<and> ignoreBookSnapshotOverlapError this \<longrightarrow>
                 thrown r = None)"
proof -
  let ?L = "snapshot_lastUpdateId snap"
  let ?bc = "snapshotBookChange Number (mapper_exchange this) symb snap t"
  let ?i1 = "(depthInfo this symb)\<lparr>lastUpdateId := Some ?L, snapshotProcessed := True\<rparr>"
  let ?this1 = "modifyDepthInfo (withDepthInfo this symb) symb
           (\<lambda>i. i\<lparr>lastUpdateId := Some ?L, snapshotProcessed := True\<rparr>)"
  let ?rp = "replay Number ?this1 (map Some upds) t"
  let ?r = "mapDepth Number this (snapshotMessage str snap) t"
  have l1: "symbolToDepthInfoMapping ?this1 symb = Some ?i1"
    by (simp add: modifyDepthInfo_lookup [OF withDepthInfo_lookup])
  have k: "keeps ?this1 (after ?rp)" by (rule replay_keeps)
  obtain i2 where i2: "symbolToDepthInfoMapping (after ?rp) symb = Some i2"
    "lastUpdateId i2 = Some ?L" "snapshotProcessed i2"
    using keeps_fields [OF k l1] by (metis (no_types, lifting) LocalDepthInfo.select_convs(2,3)
        LocalDepthInfo.surjective LocalDepthInfo.update_convs(2,3))
  have r: "?r = (case thrown ?rp of
          Some e \<Rightarrow> ?rp\<lparr>yielded := ?bc # yielded ?rp\<rparr>
        | None \<Rightarrow>
            \<lparr>yielded = ?bc # yielded ?rp,
             after = modifyDepthInfo (after ?rp) symb
               (\<lambda>i. i\<lparr>bufferedUpdates := clear (bufferedUpdates i)\<rparr>),
             thrown = None\<rparr>)"
    using mapDepth_first_snapshot [OF assms(1,3), of Number snap t] assms(2) by (simp add: Let_def)
  have y: "yielded ?r = ?bc # yielded ?rp"
    by (simp add: r split: option.splits)
  have th: "thrown ?r = thrown ?rp"
    by (simp add: r split: option.splits)
  have ev: "length (yielded ?rp) \<le> length upds \<and> (\<forall>e \<in> set (yielded ?rp). \<not> isSnapshot e)"
    using replay_events [of Number ?this1 "map Some upds" t] by simp
  have flt: "(\<forall>u \<in> set upds. d_s u = symb) \<and> thrown ?r = None \<longrightarrow>
      yielded ?rp = map (\<lambda>u. updateBookChange Number (mapper_exchange this) u t)
                             (filter (\<lambda>u. ?L < d_u u) upds)"
    using replay_filter [OF l1, of ?L upds Number t] th by simp
  have tol: "(\<forall>u \<in> set upds. d_s u = symb) \<and> ignoreBookSnapshotOverlapError this \<longrightarrow>
      thrown ?r = None"
    using replay_tolerant [OF l1, of upds Number t] th by simp
  have after_err: "thrown ?rp \<noteq> None \<Longrightarrow> after ?r = after ?rp"
    by (auto simp: r)
  have after_ok: "thrown ?rp = None \<Longrightarrow> after ?r = modifyDepthInfo (after ?rp) symb
               (\<lambda>i. i\<lparr>bufferedUpdates := clear (bufferedUpdates i)\<rparr>)"
    by (simp add: r)
  have di: "snapshotProcessed (depthInfo (after ?r) symb)
      \<and> lastUpdateId (depthInfo (after ?r) symb) = Some ?L"
  proof (cases "thrown ?rp")
    case None
    then show ?thesis using i2
      by (simp add: after_ok depthInfo_present [OF modifyDepthInfo_lookup [OF i2(1)]])
  next
    case (Some e)
    then show ?thesis using i2 by (simp add: after_err depthInfo_present [OF i2(1)])
  qed
  have cl: "thrown ?r = None \<longrightarrow> bufferedItems (after ?r) symb = []
                 \<and> count (bufferedUpdates (depthInfo (after ?r) symb)) = 0"
    using th by (auto simp: after_ok bufferedItems_def count_def clear_def items_def
        depthInfo_present [OF modifyDepthInfo_lookup [OF i2(1)]])
  show ?thesis
    unfolding Let_def using y ev flt di cl tol by simp
qed



lemma absorbed_stored:
  assumes "\<not> hasChanged old"
  shows "(if hasChanged (absorbed Number old p) then snd (getSnapshot (absorbed Number old p) t)
          else absorbed Number old p) = stored Number old p"
  using assms
  by (cases p)
    (auto simp: absorbed_def stored_def hasChanged_def getSnapshot_def updateFundingRate_def
      updateMarkPrice_def updateLastPrice_def updateTimestamp_def)

lemma absorbed_accumulated:
  "accumulated (absorbed Number old p) = accumulated (stored Number old p)"
  by (cases p)
    (auto simp: absorbed_def stored_def accumulated_def updateFundingRate_def
      updateMarkPrice_def updateLastPrice_def updateTimestamp_def)

lemma absorbed_names:
  "pending_symbol (absorbed Number old p) = pending_symbol old"
  "pending_exchange (absorbed Number old p) = pending_exchange old"
  by (cases p;
    simp add: absorbed_def updateFundingRate_def
      updateMarkPrice_def updateLastPrice_def updateTimestamp_def)+

lemma mapTicker_other:
  "s \<noteq> payload_s (data message) \<Longrightarrow>
   pendingInfo (snd (mapTicker Number this message t)) s = pendingInfo this s"
  by (simp add: mapTicker_absorbed Let_def pendingInfo_def getPendingTickerInfo_def
      split: option.splits)

section \<open>Registry: what a call returns\<close>





lemma evaluate_result:
  "(let (r, store') = evaluate body store in (Returned r, store')) = (out, store1) \<Longrightarrow>
     (\<exists>n. out = Returned (Imported n) \<and> store1 = store)
     \<or> (\<exists>obj. out = Returned (Allocated (length store)) \<and> store1 = store @ [obj])"
  by (cases body) auto




lemma deliver_length [simp]: "length (snd (deliver Number String store a m)) = length store"
  by (simp add: deliver_def split: option.splits prod.splits)


lemma deliverAll_length [simp]:
  "length (snd (deliverAll Number String store a ms)) = length store"
proof (induction ms arbitrary: store)
  case Nil
  show ?case by simp
next
  case (Cons m ms)
  show ?case
    using Cons.IH [of "snd (deliver Number String store a m)"]
    by (simp add: split_beta Let_def)
qed
















section \<open>Claims\<close>

text \<open>
  C1. In \<^verbatim>\<open>BinanceBookChangeMapper\<close>, the first update of a symbol that is processed after
  its snapshot and is not stale (\<open>u > lastUpdateId\<close>) passes when
  \<open>U \<le> lastUpdateId + 1\<close> and \<open>u \<ge> lastUpdateId + 1\<close>, or when \<open>lastUpdateId\<close> is the
  sentinel \<open>-1\<close>; it is then emitted as a book change with \<open>isSnapshot = False\<close> and the
  symbol is marked validated. When the test fails, a strict mapper throws an error that
  carries the update (with its sequence ids), \<open>lastUpdateId\<close> and the exchange; a
  tolerant mapper hands the same message to \<^verbatim>\<open>debug\<close>, marks the symbol validated and
  yields the same book change. This holds on both paths to the test: for an update that
  arrives after the snapshot (first part), and for the first buffered update with
  \<open>u > lastUpdateId\<close> when the snapshot arrives and the buffer is replayed (second part);
  there a strict failure throws after the snapshot's book change has been yielded, and a
  pass lets every later buffered update that is not stale through. The sum
  \<open>lastUpdateId + 1\<close> is the code's sum of doubles; it is the integer sum for every id
  of magnitude below \<open>2^53\<close> (third part).
\<close>

theorem C1_first_update_overlap:
  "(symbolToDepthInfoMapping this symb = Some info \<and> snapshotProcessed info
      \<and> \<not> validatedFirstUpdate info \<and> lastUpdateId info = Some L
      \<and> streamSymbol str = symb \<and> d_s upd = symb \<and> L < d_u upd \<longrightarrow>
    mapDepth Number this (updateMessage str upd) t =
      (if overlaps upd L
       then \<lparr>yielded = [updateBookChange Number (mapper_exchange this) upd t],
             after = setValidated this symb, thrown = None\<rparr>
       else if ignoreBookSnapshotOverlapError this
       then \<lparr>yielded = [updateBookChange Number (mapper_exchange this) upd t],
             after = (setValidated this symb)
               \<lparr>debugLog := debugLog this @ [NoOverlap upd (Some L) (mapper_exchange this)]\<rparr>,
             thrown = None\<rparr>
       else \<lparr>yielded = [], after = this,
             thrown = Some (Error (NoOverlap upd (Some L) (mapper_exchange this)))\<rparr>))
   \<and> (\<not> snapshotProcessed (depthInfo this symb) \<and> \<not> validatedFirstUpdate (depthInfo this symb)
      \<and> bufferedItems this symb = map Some upds \<and> (\<forall>u \<in> set upds. d_s u = symb)
      \<and> streamSymbol str = symb \<and> snapshot_lastUpdateId snap = L
      \<and> filter (\<lambda>u. L < d_u u) upds = upd # rest \<longrightarrow>
    mapDepth Number this (snapshotMessage str snap) t =
      (if overlaps upd L
       then \<lparr>yielded = snapshotBookChange Number (mapper_exchange this) symb snap t
               # map (\<lambda>u. updateBookChange Number (mapper_exchange this) u t) (upd # rest),
             after = bufferCleared (setValidated (snapshotApplied this symb L) symb) symb,
             thrown = None\<rparr>
       else if ignoreBookSnapshotOverlapError this
       then \<lparr>yielded = snapshotBookChange Number (mapper_exchange this) symb snap t
               # map (\<lambda>u. updateBookChange Number (mapper_exchange this) u t) (upd # rest),
             after = bufferCleared
               ((setValidated (snapshotApplied this symb L) symb)
                  \<lparr>debugLog := debugLog this @ [NoOverlap upd (Some L) (mapper_exchange this)]\<rparr>)
               symb,
             thrown = None\<rparr>
       else \<lparr>yielded = [snapshotBookChange Number (mapper_exchange this) symb snap t],
             after = snapshotApplied this symb L,
             thrown = Some (Error (NoOverlap upd (Some L) (mapper_exchange this)))\<rparr>))
   \<and> (- 9007199254740992 \<le> L \<and> L < 9007199254740991 \<longrightarrow>
        (overlaps upd L \<longleftrightarrow> (d_U upd \<le> L + 1 \<and> d_u upd \<ge> L + 1) \<or> L = - 1))"
proof (intro conjI impI)
  assume h: "symbolToDepthInfoMapping this symb = Some info \<and> snapshotProcessed info
      \<and> \<not> validatedFirstUpdate info \<and> lastUpdateId info = Some L
      \<and> streamSymbol str = symb \<and> d_s upd = symb \<and> L < d_u upd"
  then have ctx: "symbolToDepthInfoMapping this (d_s upd) = Some info" by simp
  have live: "mapDepth Number this (updateMessage str upd) t =
    (case mapBookDepthUpdate Number this upd t of
       Inl e \<Rightarrow> \<lparr>yielded = [], after = this, thrown = Some e\<rparr>
     | Inr (bookChange, this') \<Rightarrow>
         \<lparr>yielded = (case bookChange of None \<Rightarrow> [] | Some bc \<Rightarrow> [bc]),
          after = this', thrown = None\<rparr>)"
    using h by (intro mapDepth_live_update [where info = info and symb = symb]) simp_all
  have first: "mapBookDepthUpdate Number this upd t =
    (if overlaps upd L
     then Inr (Some (updateBookChange Number (mapper_exchange this) upd t),
            setValidated this (d_s upd))
     else if ignoreBookSnapshotOverlapError this
     then Inr (Some (updateBookChange Number (mapper_exchange this) upd t),
            (setValidated this (d_s upd))
              \<lparr>debugLog := debugLog this @ [NoOverlap upd (Some L) (mapper_exchange this)]\<rparr>)
     else Inl (Error (NoOverlap upd (Some L) (mapper_exchange this))))"
    using h by (intro mapBookDepthUpdate_first [OF ctx]) simp_all
  show "mapDepth Number this (updateMessage str upd) t =
      (if overlaps upd L
       then \<lparr>yielded = [updateBookChange Number (mapper_exchange this) upd t],
             after = setValidated this symb, thrown = None\<rparr>
       else if ignoreBookSnapshotOverlapError this
       then \<lparr>yielded = [updateBookChange Number (mapper_exchange this) upd t],
             after = (setValidated this symb)
               \<lparr>debugLog := debugLog this @ [NoOverlap upd (Some L) (mapper_exchange this)]\<rparr>,
             thrown = None\<rparr>
       else \<lparr>yielded = [], after = this,
             thrown = Some (Error (NoOverlap upd (Some L) (mapper_exchange this)))\<rparr>)"
    using h by (simp add: live first)
next
  assume h: "\<not> snapshotProcessed (depthInfo this symb) \<and> \<not> validatedFirstUpdate (depthInfo this symb)
      \<and> bufferedItems this symb = map Some upds \<and> (\<forall>u \<in> set upds. d_s u = symb)
      \<and> streamSymbol str = symb \<and> snapshot_lastUpdateId snap = L
      \<and> filter (\<lambda>u. L < d_u u) upds = upd # rest"
  have ex: "mapDepth Number this (snapshotMessage str snap) t =
    (let L = snapshot_lastUpdateId snap;
         bookChange = snapshotBookChange Number (mapper_exchange this) symb snap t;
         r = replayed Number (snapshotApplied this symb L) symb L upds t
     in case thrown r of
          Some e \<Rightarrow> r\<lparr>yielded := bookChange # yielded r\<rparr>
        | None \<Rightarrow>
            \<lparr>yielded = bookChange # yielded r, after = bufferCleared (after r) symb,
             thrown = None\<rparr>)"
    using h by (intro first_snapshot_exact) simp_all
  have nv: "\<not> validatedFirstUpdate (depthInfo (snapshotApplied this symb L) symb)"
    using h by (simp add: snapshotApplied_depthInfo)
  show "mapDepth Number this (snapshotMessage str snap) t =
      (if overlaps upd L
       then \<lparr>yielded = snapshotBookChange Number (mapper_exchange this) symb snap t
               # map (\<lambda>u. updateBookChange Number (mapper_exchange this) u t) (upd # rest),
             after = bufferCleared (setValidated (snapshotApplied this symb L) symb) symb,
             thrown = None\<rparr>
       else if ignoreBookSnapshotOverlapError this
       then \<lparr>yielded = snapshotBookChange Number (mapper_exchange this) symb snap t
               # map (\<lambda>u. updateBookChange Number (mapper_exchange this) u t) (upd # rest),
             after = bufferCleared
               ((setValidated (snapshotApplied this symb L) symb)
                  \<lparr>debugLog := debugLog this @ [NoOverlap upd (Some L) (mapper_exchange this)]\<rparr>)
               symb,
             thrown = None\<rparr>
       else \<lparr>yielded = [snapshotBookChange Number (mapper_exchange this) symb snap t],
             after = snapshotApplied this symb L,
             thrown = Some (Error (NoOverlap upd (Some L) (mapper_exchange this)))\<rparr>)"
    using h nv by (simp add: ex replayed_def Let_def)
next
  assume "- 9007199254740992 \<le> L \<and> L < 9007199254740991"
  then show "overlaps upd L \<longleftrightarrow> (d_U upd \<le> L + 1 \<and> d_u upd \<ge> L + 1) \<or> L = - 1"
    by (simp add: overlaps_exact)
qed



theorem C1_first_update_overlap_witness:
  "mapDepth (\<lambda>s. s)
     \<lparr>mapper_exchange = ''binance'', ignoreBookSnapshotOverlapError = True,
      symbolToDepthInfoMapping = [''BTCUSDT'' \<mapsto>
        \<lparr>bufferedUpdates = new_CircularBuffer 200, snapshotProcessed = True,
         lastUpdateId = Some 100, validatedFirstUpdate = False\<rparr>],
      debugLog = []\<rparr>
     (updateMessage ''btcusdt@depth''
        \<lparr>d_E = 7, d_s = ''BTCUSDT'', d_U = 200, d_u = 205, d_b = [(''1'', ''2'')], d_a = []\<rparr>) 8
   = \<lparr>yielded =
        [\<lparr>event_type = ''book_change'', symbol = ''BTCUSDT'', exchange = ''binance'',
          isSnapshot = False, bids = [\<lparr>price = ''1'', amount = ''2''\<rparr>], asks = [],
          timestamp = 7, localTimestamp = 8\<rparr>],
      after = \<lparr>mapper_exchange = ''binance'', ignoreBookSnapshotOverlapError = True,
        symbolToDepthInfoMapping = [''BTCUSDT'' \<mapsto>
          \<lparr>bufferedUpdates = new_CircularBuffer 200, snapshotProcessed = True,
           lastUpdateId = Some 100, validatedFirstUpdate = True\<rparr>],
        debugLog =
          [NoOverlap
             \<lparr>d_E = 7, d_s = ''BTCUSDT'', d_U = 200, d_u = 205, d_b = [(''1'', ''2'')], d_a = []\<rparr>
             (Some 100) ''binance'']\<rparr>,
      thrown = None\<rparr>
   \<and> yielded (mapDepth (\<lambda>s. s)
       \<lparr>mapper_exchange = ''binance'', ignoreBookSnapshotOverlapError = False,
        symbolToDepthInfoMapping = [''BTCUSDT'' \<mapsto>
          \<lparr>bufferedUpdates =
             \<lparr>cb_buffer =
                [Some \<lparr>d_E = 1, d_s = ''BTCUSDT'', d_U = 85, d_u = 90, d_b = [], d_a = []\<rparr>,
                 Some \<lparr>d_E = 2, d_s = ''BTCUSDT'', d_U = 200, d_u = 205, d_b = [], d_a = []\<rparr>],
              cb_index = 2, cb_bufferSize = 200\<rparr>,
           snapshotProcessed = False, lastUpdateId = None, validatedFirstUpdate = False\<rparr>],
        debugLog = []\<rparr>
       (snapshotMessage ''btcusdt@depthSnapshot''
          \<lparr>snapshot_lastUpdateId = 100, snapshot_bids = [], snapshot_asks = []\<rparr>) 8)
     = [\<lparr>event_type = ''book_change'', symbol = ''BTCUSDT'', exchange = ''binance'',
         isSnapshot = True, bids = [], asks = [], timestamp = 8, localTimestamp = 8\<rparr>]
   \<and> thrown (mapDepth (\<lambda>s. s)
       \<lparr>mapper_exchange = ''binance'', ignoreBookSnapshotOverlapError = False,
        symbolToDepthInfoMapping = [''BTCUSDT'' \<mapsto>
          \<lparr>bufferedUpdates =
             \<lparr>cb_buffer =
                [Some \<lparr>d_E = 1, d_s = ''BTCUSDT'', d_U = 85, d_u = 90, d_b = [], d_a = []\<rparr>,
                 Some \<lparr>d_E = 2, d_s = ''BTCUSDT'', d_U = 200, d_u = 205, d_b = [], d_a = []\<rparr>],
              cb_index = 2, cb_bufferSize = 200\<rparr>,
           snapshotProcessed = False, lastUpdateId = None, validatedFirstUpdate = False\<rparr>],
        debugLog = []\<rparr>
       (snapshotMessage ''btcusdt@depthSnapshot''
          \<lparr>snapshot_lastUpdateId = 100, snapshot_bids = [], snapshot_asks = []\<rparr>) 8)
     = Some (Error (NoOverlap
         \<lparr>d_E = 2, d_s = ''BTCUSDT'', d_U = 200, d_u = 205, d_b = [], d_a = []\<rparr>
         (Some 100) ''binance''))"
proof -
  let ?live = "\<lparr>mapper_exchange = ''binance'', ignoreBookSnapshotOverlapError = True,
      symbolToDepthInfoMapping = [''BTCUSDT'' \<mapsto>
        \<lparr>bufferedUpdates = new_CircularBuffer 200, snapshotProcessed = True,
         lastUpdateId = Some 100, validatedFirstUpdate = False\<rparr>],
      debugLog = []\<rparr>"
  let ?info = "\<lparr>bufferedUpdates = new_CircularBuffer 200, snapshotProcessed = True,
         lastUpdateId = Some 100, validatedFirstUpdate = False\<rparr>"
  let ?upd = "\<lparr>d_E = 7, d_s = ''BTCUSDT'', d_U = 200, d_u = 205, d_b = [(''1'', ''2'')], d_a = []\<rparr>"
  let ?buffering = "\<lparr>mapper_exchange = ''binance'', ignoreBookSnapshotOverlapError = False,
        symbolToDepthInfoMapping = [''BTCUSDT'' \<mapsto>
          \<lparr>bufferedUpdates =
             \<lparr>cb_buffer =
                [Some \<lparr>d_E = 1, d_s = ''BTCUSDT'', d_U = 85, d_u = 90, d_b = [], d_a = []\<rparr>,
                 Some \<lparr>d_E = 2, d_s = ''BTCUSDT'', d_U = 200, d_u = 205, d_b = [], d_a = []\<rparr>],
              cb_index = 2, cb_bufferSize = 200\<rparr>,
           snapshotProcessed = False, lastUpdateId = None, validatedFirstUpdate = False\<rparr>],
        debugLog = []\<rparr>"
  let ?upds = "[\<lparr>d_E = 1, d_s = ''BTCUSDT'', d_U = 85, d_u = 90, d_b = [], d_a = []\<rparr>,
       \<lparr>d_E = 2, d_s = ''BTCUSDT'', d_U = 200, d_u = 205, d_b = [], d_a = []\<rparr>]"
  let ?first = "\<lparr>d_E = 2, d_s = ''BTCUSDT'', d_U = 200, d_u = 205, d_b = [], d_a = []\<rparr>"
  let ?snap = "\<lparr>snapshot_lastUpdateId = 100, snapshot_bids = [], snapshot_asks = []\<rparr>"
  have s1: "streamSymbol ''btcusdt@depth'' = ''BTCUSDT''" by code_simp
  have s2: "streamSymbol ''btcusdt@depthSnapshot'' = ''BTCUSDT''" by code_simp
  have b1: "\<not> snapshotProcessed (depthInfo ?buffering ''BTCUSDT'')" by code_simp
  have b2: "\<not> validatedFirstUpdate (depthInfo ?buffering ''BTCUSDT'')" by code_simp
  have b3: "bufferedItems ?buffering ''BTCUSDT'' = map Some ?upds" by code_simp
  have o1: "\<not> overlaps ?upd 100" by (simp add: overlaps_exact)
  have o2: "\<not> overlaps ?first 100" by (simp add: overlaps_exact)
  show ?thesis
    using C1_first_update_overlap [where this = ?live and symb = "''BTCUSDT''" and info = ?info
        and L = 100 and str = "''btcusdt@depth''" and upd = ?upd and Number = "\<lambda>s. s" and t = 8]
      C1_first_update_overlap [where this = ?buffering and symb = "''BTCUSDT''" and L = 100
        and str = "''btcusdt@depthSnapshot''" and upd = ?first and Number = "\<lambda>s. s" and t = 8
        and upds = ?upds and snap = ?snap and rest = "[]"]
      s1 s2 b1 b2 b3 o1 o2
    by (simp add: setValidated_def updateBookChange_def mapBookLevel_def snapshotBookChange_def)
qed

text \<open>
  C2. Update messages of a symbol that arrive before any message of that symbol has been
  seen, so before its snapshot: the run yields no event and throws nothing, and the
  symbol's buffer then holds, oldest first, the updates in their order of arrival without
  the \<open>length us - 200\<close> oldest of them: all of them up to 200, the last 200 beyond.
\<close>

theorem C2_pre_snapshot_updates_buffered:
  assumes "symbolToDepthInfoMapping this symb = None"
    and "\<forall>u \<in> set us. streamSymbol (fst u) = symb"
  shows "yielded (mapAll Number this (updateMessages us)) = []
     \<and> thrown (mapAll Number this (updateMessages us)) = None
     \<and> bufferedItems (after (mapAll Number this (updateMessages us))) symb
         = map Some (drop (length us - 200) (map (\<lambda>u. fst (snd u)) us))"
  using buffering_run [OF buffering_new [OF assms(1)] assms(2), of Number]
  by (simp add: bufferedItems_new [OF assms(1)] lastN_def drop_map comp_def)



theorem C2_pre_snapshot_updates_buffered_witness:
  "yielded (mapAll (\<lambda>s. s) (new_BinanceBookChangeMapper ''binance'' False)
      (updateMessages
        [(''btcusdt@depth'', \<lparr>d_E = 1, d_s = ''BTCUSDT'', d_U = 1, d_u = 2, d_b = [], d_a = []\<rparr>, 5),
         (''btcusdt@depth'', \<lparr>d_E = 2, d_s = ''BTCUSDT'', d_U = 3, d_u = 4, d_b = [], d_a = []\<rparr>, 6)])) = []
   \<and> bufferedItems (after (mapAll (\<lambda>s. s) (new_BinanceBookChangeMapper ''binance'' False)
      (updateMessages
        [(''btcusdt@depth'', \<lparr>d_E = 1, d_s = ''BTCUSDT'', d_U = 1, d_u = 2, d_b = [], d_a = []\<rparr>, 5),
         (''btcusdt@depth'', \<lparr>d_E = 2, d_s = ''BTCUSDT'', d_U = 3, d_u = 4, d_b = [], d_a = []\<rparr>, 6)])))
      ''BTCUSDT''
     = [Some \<lparr>d_E = 1, d_s = ''BTCUSDT'', d_U = 1, d_u = 2, d_b = [], d_a = []\<rparr>,
        Some \<lparr>d_E = 2, d_s = ''BTCUSDT'', d_U = 3, d_u = 4, d_b = [], d_a = []\<rparr>]"
  using C2_pre_snapshot_updates_buffered [of "new_BinanceBookChangeMapper ''binance'' False"
      "''BTCUSDT''"
      "[(''btcusdt@depth'', \<lparr>d_E = 1, d_s = ''BTCUSDT'', d_U = 1, d_u = 2, d_b = [], d_a = []\<rparr>, 5),
        (''btcusdt@depth'', \<lparr>d_E = 2, d_s = ''BTCUSDT'', d_U = 3, d_u = 4, d_b = [], d_a = []\<rparr>, 6)]"
      "\<lambda>s. s"]
  by (simp add: streamSymbol_btcusdt new_BinanceBookChangeMapper_def)


text \<open>
  C4. A symbol whose snapshot has been processed, with \<open>lastUpdateId = L\<close>: an update of
  that symbol with \<open>u \<le> L\<close> yields no event, throws nothing and leaves the whole mapper,
  with the symbol's \<open>lastUpdateId\<close>, \<open>validatedFirstUpdate\<close> and buffer, as it was.
\<close>

theorem C4_stale_update_discarded:
  assumes "symbolToDepthInfoMapping this symb = Some info" "snapshotProcessed info"
    "lastUpdateId info = Some L" "streamSymbol str = symb" "d_s upd = symb" "d_u upd \<le> L"
  shows "mapDepth Number this (updateMessage str upd) t =
    \<lparr>yielded = [], after = this, thrown = None\<rparr>"
proof -
  have "mapBookDepthUpdate Number this upd t = Inr (None, this)"
    using assms by (intro mapBookDepthUpdate_stale [where info = info and L = L]) simp_all
  then show ?thesis
    by (simp add: mapDepth_live_update [OF assms(1,2,4)])
qed


theorem C4_stale_update_discarded_witness:
  "mapDepth (\<lambda>s. s)
     \<lparr>mapper_exchange = ''binance'', ignoreBookSnapshotOverlapError = False,
      symbolToDepthInfoMapping = [''BTCUSDT'' \<mapsto>
        \<lparr>bufferedUpdates = new_CircularBuffer 200, snapshotProcessed = True,
         lastUpdateId = Some 100, validatedFirstUpdate = False\<rparr>],
      debugLog = []\<rparr>
     (updateMessage ''btcusdt@depth''
        \<lparr>d_E = 7, d_s = ''BTCUSDT'', d_U = 95, d_u = 99, d_b = [(''1'', ''2'')], d_a = []\<rparr>) 8
   = \<lparr>yielded = [],
      after = \<lparr>mapper_exchange = ''binance'', ignoreBookSnapshotOverlapError = False,
        symbolToDepthInfoMapping = [''BTCUSDT'' \<mapsto>
          \<lparr>bufferedUpdates = new_CircularBuffer 200, snapshotProcessed = True,
           lastUpdateId = Some 100, validatedFirstUpdate = False\<rparr>],
        debugLog = []\<rparr>,
      thrown = None\<rparr>"
  using C4_stale_update_discarded [of
      "\<lparr>mapper_exchange = ''binance'', ignoreBookSnapshotOverlapError = False,
      symbolToDepthInfoMapping = [''BTCUSDT'' \<mapsto>
        \<lparr>bufferedUpdates = new_CircularBuffer 200, snapshotProcessed = True,
         lastUpdateId = Some 100, validatedFirstUpdate = False\<rparr>],
      debugLog = []\<rparr>" "''BTCUSDT''"
      "\<lparr>bufferedUpdates = new_CircularBuffer 200, snapshotProcessed = True,
         lastUpdateId = Some 100, validatedFirstUpdate = False\<rparr>"
      100 "''btcusdt@depth''"
      "\<lparr>d_E = 7, d_s = ''BTCUSDT'', d_U = 95, d_u = 99, d_b = [(''1'', ''2'')], d_a = []\<rparr>"
      "\<lambda>s. s" 8]
  by (simp add: streamSymbol_btcusdt)


text \<open>
  C5. A snapshot message for a symbol whose snapshot has already been processed yields no
  event, throws nothing and leaves the whole mapper as it was.
\<close>

theorem C5_second_snapshot_ignored:
  assumes "symbolToDepthInfoMapping this symb = Some info" "snapshotProcessed info"
    "streamSymbol str = symb"
  shows "mapDepth Number this (snapshotMessage str snap) t =
    \<lparr>yielded = [], after = this, thrown = None\<rparr>"
  using assms
  by (simp add: mapDepth_def snapshotMessage_def withDepthInfo_present Let_def)


theorem C5_second_snapshot_ignored_witness:
  "mapDepth (\<lambda>s. s)
     \<lparr>mapper_exchange = ''binance'', ignoreBookSnapshotOverlapError = False,
      symbolToDepthInfoMapping = [''BTCUSDT'' \<mapsto>
        \<lparr>bufferedUpdates = new_CircularBuffer 200, snapshotProcessed = True,
         lastUpdateId = Some 100, validatedFirstUpdate = True\<rparr>],
      debugLog = []\<rparr>
     (snapshotMessage ''btcusdt@depthSnapshot''
        \<lparr>snapshot_lastUpdateId = 300, snapshot_bids = [(''1'', ''2'')], snapshot_asks = []\<rparr>) 8
   = \<lparr>yielded = [],
      after = \<lparr>mapper_exchange = ''binance'', ignoreBookSnapshotOverlapError = False,
        symbolToDepthInfoMapping = [''BTCUSDT'' \<mapsto>
          \<lparr>bufferedUpdates = new_CircularBuffer 200, snapshotProcessed = True,
           lastUpdateId = Some 100, validatedFirstUpdate = True\<rparr>],
        debugLog = []\<rparr>,
      thrown = None\<rparr>"
  using C5_second_snapshot_ignored [of
      "\<lparr>mapper_exchange = ''binance'', ignoreBookSnapshotOverlapError = False,
      symbolToDepthInfoMapping = [''BTCUSDT'' \<mapsto>
        \<lparr>bufferedUpdates = new_CircularBuffer 200, snapshotProcessed = True,
         lastUpdateId = Some 100, validatedFirstUpdate = True\<rparr>],
      debugLog = []\<rparr>" "''BTCUSDT''"
      "\<lparr>bufferedUpdates = new_CircularBuffer 200, snapshotProcessed = True,
         lastUpdateId = Some 100, validatedFirstUpdate = True\<rparr>"
      "''btcusdt@depthSnapshot''" "\<lambda>s. s"
      "\<lparr>snapshot_lastUpdateId = 300, snapshot_bids = [(''1'', ''2'')], snapshot_asks = []\<rparr>" 8]
  by (simp add: streamSymbol_def toUpperCase_def toUpperChar_def)

text \<open>
  C3, as stated, fails in a strict mapper: with one buffered update that does not overlap
  the snapshot, the snapshot message throws during the replay, and the buffer still holds
  the update afterwards.
\<close>

theorem C3_first_snapshot_replays_buffer_counterexample:
  "bufferedItems
     (after (mapDepth (\<lambda>s. s) (new_BinanceBookChangeMapper ''binance'' False)
        (updateMessage ''btcusdt@depth''
           \<lparr>d_E = 1, d_s = ''BTCUSDT'', d_U = 200, d_u = 205, d_b = [], d_a = []\<rparr>) 5))
     ''BTCUSDT''
     = [Some \<lparr>d_E = 1, d_s = ''BTCUSDT'', d_U = 200, d_u = 205, d_b = [], d_a = []\<rparr>]
   \<and> thrown (mapDepth (\<lambda>s. s)
        (after (mapDepth (\<lambda>s. s) (new_BinanceBookChangeMapper ''binance'' False)
           (updateMessage ''btcusdt@depth''
              \<lparr>d_E = 1, d_s = ''BTCUSDT'', d_U = 200, d_u = 205, d_b = [], d_a = []\<rparr>) 5))
        (snapshotMessage ''btcusdt@depthSnapshot''
           \<lparr>snapshot_lastUpdateId = 100, snapshot_bids = [], snapshot_asks = []\<rparr>) 6)
     = Some (Error (NoOverlap
         \<lparr>d_E = 1, d_s = ''BTCUSDT'', d_U = 200, d_u = 205, d_b = [], d_a = []\<rparr>
         (Some 100) ''binance''))
   \<and> bufferedItems
        (after (mapDepth (\<lambda>s. s)
           (after (mapDepth (\<lambda>s. s) (new_BinanceBookChangeMapper ''binance'' False)
              (updateMessage ''btcusdt@depth''
                 \<lparr>d_E = 1, d_s = ''BTCUSDT'', d_U = 200, d_u = 205, d_b = [], d_a = []\<rparr>) 5))
           (snapshotMessage ''btcusdt@depthSnapshot''
              \<lparr>snapshot_lastUpdateId = 100, snapshot_bids = [], snapshot_asks = []\<rparr>) 6))
        ''BTCUSDT''
     = [Some \<lparr>d_E = 1, d_s = ''BTCUSDT'', d_U = 200, d_u = 205, d_b = [], d_a = []\<rparr>]"
  by code_simp



text \<open>
  C3, amended. The first snapshot message of a symbol with \<open>N\<close> buffered updates yields
  the snapshot's book change (\<open>isSnapshot = True\<close>, every bid and ask level of the
  snapshot) followed by at most \<open>N\<close> book changes with \<open>isSnapshot = False\<close>; afterwards
  the snapshot is marked processed and \<open>lastUpdateId\<close> is the snapshot's id, and if
  nothing was thrown the buffer is empty. When the buffered updates carry the stream's
  symbol the result is known in full. The replay fails exactly when the symbol is not yet
  validated, some buffered update is not stale, the first such update does not overlap the
  snapshot, and the mapper is strict: then the snapshot's book change is the only event,
  the overlap error is thrown, and the mapper is left with the snapshot recorded and the
  buffer as it was. In every other case the events after the first are the buffered
  updates with \<open>u > lastUpdateId\<close>, in their order of arrival, nothing is thrown, the
  symbol is validated if one of them was replayed (a tolerant mapper logging the failed
  overlap), and the buffer is empty.
\<close>

theorem C3_first_snapshot_replays_buffer:
  assumes "\<not> snapshotProcessed (depthInfo this symb)"
    and "bufferedItems this symb = map Some upds"
    and "streamSymbol str = symb"
  shows "let r = mapDepth Number this (snapshotMessage str snap) t;
             L = snapshot_lastUpdateId snap;
             bookChange = snapshotBookChange Number (mapper_exchange this) symb snap t;
             fresh = filter (\<lambda>u. L < d_u u) upds;
             this1 = snapshotApplied this symb L;
             message = NoOverlap (hd fresh) (Some L) (mapper_exchange this);
             fails = (\<not> validatedFirstUpdate (depthInfo this symb) \<and> fresh \<noteq> []
                      \<and> \<not> overlaps (hd fresh) L \<and> \<not> ignoreBookSnapshotOverlapError this)
         in (\<exists>rest.
               yielded r = bookChange # rest
               \<and> length rest \<le> length upds
               \<and> (\<forall>e \<in> set rest. \<not> isSnapshot e))
            \<and> snapshotProcessed (depthInfo (after r) symb)
            \<and> lastUpdateId (depthInfo (after r) symb) = Some L
            \<and> (thrown r = None \<longrightarrow>
                 bufferedItems (after r) symb = []
                 \<and> count (bufferedUpdates (depthInfo (after r) symb)) = 0)
            \<and> ((\<forall>u \<in> set upds. d_s u = symb) \<longrightarrow>
                 r = (if fails
                      then \<lparr>yielded = [bookChange], after = this1, thrown = Some (Error message)\<rparr>
                      else \<lparr>yielded = bookChange
                                # map (\<lambda>u. updateBookChange Number (mapper_exchange this) u t) fresh,
                            after = bufferCleared
                              (if validatedFirstUpdate (depthInfo this symb) \<or> fresh = [] then this1
                               else if overlaps (hd fresh) L then setValidated this1 symb
                               else (setValidated this1 symb)\<lparr>debugLog := debugLog this @ [message]\<rparr>)
                              symb,
                            thrown = None\<rparr>)
                 \<and> bufferedItems (after r) symb = (if fails then map Some upds else []))"
proof -
  let ?L = "snapshot_lastUpdateId snap"
  let ?r = "mapDepth Number this (snapshotMessage str snap) t"
  note g = first_snapshot_general [OF assms, of Number snap t, unfolded Let_def]
  have gen: "(\<exists>rest.
               yielded ?r = snapshotBookChange Number (mapper_exchange this) symb snap t # rest
               \<and> length rest \<le> length upds
               \<and> (\<forall>e \<in> set rest. \<not> isSnapshot e))"
    "snapshotProcessed (depthInfo (after ?r) symb)"
    "lastUpdateId (depthInfo (after ?r) symb) = Some ?L"
    "thrown ?r = None \<longrightarrow>
                 bufferedItems (after ?r) symb = []
                 \<and> count (bufferedUpdates (depthInfo (after ?r) symb)) = 0"
    using g by blast+
  have exact: "(\<forall>u \<in> set upds. d_s u = symb) \<longrightarrow>
      ?r = (if (\<not> validatedFirstUpdate (depthInfo this symb) \<and> filter (\<lambda>u. ?L < d_u u) upds \<noteq> []
                      \<and> \<not> overlaps (hd (filter (\<lambda>u. ?L < d_u u) upds)) ?L
                      \<and> \<not> ignoreBookSnapshotOverlapError this)
            then \<lparr>yielded = [snapshotBookChange Number (mapper_exchange this) symb snap t],
                  after = snapshotApplied this symb ?L,
                  thrown = Some (Error (NoOverlap (hd (filter (\<lambda>u. ?L < d_u u) upds)) (Some ?L)
                                  (mapper_exchange this)))\<rparr>
            else \<lparr>yielded = snapshotBookChange Number (mapper_exchange this) symb snap t
                      # map (\<lambda>u. updateBookChange Number (mapper_exchange this) u t)
                          (filter (\<lambda>u. ?L < d_u u) upds),
                  after = bufferCleared
                    (if validatedFirstUpdate (depthInfo this symb) \<or> filter (\<lambda>u. ?L < d_u u) upds = []
                     then snapshotApplied this symb ?L
                     else if overlaps (hd (filter (\<lambda>u. ?L < d_u u) upds)) ?L
                     then setValidated (snapshotApplied this symb ?L) symb
                     else (setValidated (snapshotApplied this symb ?L) symb)
                       \<lparr>debugLog := debugLog this @
                          [NoOverlap (hd (filter (\<lambda>u. ?L < d_u u) upds)) (Some ?L)
                             (mapper_exchange this)]\<rparr>)
                    symb,
                  thrown = None\<rparr>)"
  proof
    assume ds: "\<forall>u \<in> set upds. d_s u = symb"
    have v: "validatedFirstUpdate (depthInfo (snapshotApplied this symb ?L) symb)
        = validatedFirstUpdate (depthInfo this symb)"
      by (simp add: snapshotApplied_depthInfo)
    show "?r = (if (\<not> validatedFirstUpdate (depthInfo this symb) \<and> filter (\<lambda>u. ?L < d_u u) upds \<noteq> []
                      \<and> \<not> overlaps (hd (filter (\<lambda>u. ?L < d_u u) upds)) ?L
                      \<and> \<not> ignoreBookSnapshotOverlapError this)
            then \<lparr>yielded = [snapshotBookChange Number (mapper_exchange this) symb snap t],
                  after = snapshotApplied this symb ?L,
                  thrown = Some (Error (NoOverlap (hd (filter (\<lambda>u. ?L < d_u u) upds)) (Some ?L)
                                  (mapper_exchange this)))\<rparr>
            else \<lparr>yielded = snapshotBookChange Number (mapper_exchange this) symb snap t
                      # map (\<lambda>u. updateBookChange Number (mapper_exchange this) u t)
                          (filter (\<lambda>u. ?L < d_u u) upds),
                  after = bufferCleared
                    (if validatedFirstUpdate (depthInfo this symb) \<or> filter (\<lambda>u. ?L < d_u u) upds = []
                     then snapshotApplied this symb ?L
                     else if overlaps (hd (filter (\<lambda>u. ?L < d_u u) upds)) ?L
                     then setValidated (snapshotApplied this symb ?L) symb
                     else (setValidated (snapshotApplied this symb ?L) symb)
                       \<lparr>debugLog := debugLog this @
                          [NoOverlap (hd (filter (\<lambda>u. ?L < d_u u) upds)) (Some ?L)
                             (mapper_exchange this)]\<rparr>)
                    symb,
                  thrown = None\<rparr>)"
      by (simp add: first_snapshot_exact [OF assms ds, of Number snap t] replayed_def Let_def v)
  qed
  have buf: "(\<forall>u \<in> set upds. d_s u = symb) \<longrightarrow>
      bufferedItems (after ?r) symb =
        (if (\<not> validatedFirstUpdate (depthInfo this symb) \<and> filter (\<lambda>u. ?L < d_u u) upds \<noteq> []
                      \<and> \<not> overlaps (hd (filter (\<lambda>u. ?L < d_u u) upds)) ?L
                      \<and> \<not> ignoreBookSnapshotOverlapError this)
         then map Some upds else [])"
  proof
    assume ds: "\<forall>u \<in> set upds. d_s u = symb"
    show "bufferedItems (after ?r) symb =
        (if (\<not> validatedFirstUpdate (depthInfo this symb) \<and> filter (\<lambda>u. ?L < d_u u) upds \<noteq> []
                      \<and> \<not> overlaps (hd (filter (\<lambda>u. ?L < d_u u) upds)) ?L
                      \<and> \<not> ignoreBookSnapshotOverlapError this)
         then map Some upds else [])"
    proof (cases "\<not> validatedFirstUpdate (depthInfo this symb) \<and> filter (\<lambda>u. ?L < d_u u) upds \<noteq> []
                      \<and> \<not> overlaps (hd (filter (\<lambda>u. ?L < d_u u) upds)) ?L
                      \<and> \<not> ignoreBookSnapshotOverlapError this")
      case True
      then have "after ?r = snapshotApplied this symb ?L" using exact ds by simp
      then show ?thesis using True by (simp add: bufferedItems_snapshotApplied assms(2))
    next
      case False
      then have "thrown ?r = None" using exact ds by auto
      then have "bufferedItems (after ?r) symb = []" using gen(4) by simp
      then show ?thesis using False by (simp only: if_False)
    qed
  qed
  show ?thesis
    unfolding Let_def using gen exact buf by blast
qed


theorem C3_first_snapshot_replays_buffer_witness:
  "mapDepth (\<lambda>s. s)
     \<lparr>mapper_exchange = ''binance'', ignoreBookSnapshotOverlapError = True,
      symbolToDepthInfoMapping = [''BTCUSDT'' \<mapsto>
        \<lparr>bufferedUpdates =
           \<lparr>cb_buffer =
              [Some \<lparr>d_E = 1, d_s = ''BTCUSDT'', d_U = 85, d_u = 90, d_b = [], d_a = []\<rparr>,
               Some \<lparr>d_E = 2, d_s = ''BTCUSDT'', d_U = 91, d_u = 105, d_b = [(''3'', ''4'')], d_a = []\<rparr>],
            cb_index = 2, cb_bufferSize = 200\<rparr>,
         snapshotProcessed = False, lastUpdateId = None, validatedFirstUpdate = False\<rparr>],
      debugLog = []\<rparr>
     (snapshotMessage ''btcusdt@depthSnapshot''
        \<lparr>snapshot_lastUpdateId = 100, snapshot_bids = [(''1'', ''2'')], snapshot_asks = []\<rparr>) 8
   = \<lparr>yielded =
        [\<lparr>event_type = ''book_change'', symbol = ''BTCUSDT'', exchange = ''binance'',
          isSnapshot = True, bids = [\<lparr>price = ''1'', amount = ''2''\<rparr>], asks = [],
          timestamp = 8, localTimestamp = 8\<rparr>,
         \<lparr>event_type = ''book_change'', symbol = ''BTCUSDT'', exchange = ''binance'',
          isSnapshot = False, bids = [\<lparr>price = ''3'', amount = ''4''\<rparr>], asks = [],
          timestamp = 2, localTimestamp = 8\<rparr>],
      after = bufferCleared
        (setValidated
          (snapshotApplied
            \<lparr>mapper_exchange = ''binance'', ignoreBookSnapshotOverlapError = True,
             symbolToDepthInfoMapping = [''BTCUSDT'' \<mapsto>
               \<lparr>bufferedUpdates =
                  \<lparr>cb_buffer =
                     [Some \<lparr>d_E = 1, d_s = ''BTCUSDT'', d_U = 85, d_u = 90, d_b = [], d_a = []\<rparr>,
                      Some \<lparr>d_E = 2, d_s = ''BTCUSDT'', d_U = 91, d_u = 105, d_b = [(''3'', ''4'')], d_a = []\<rparr>],
                   cb_index = 2, cb_bufferSize = 200\<rparr>,
                snapshotProcessed = False, lastUpdateId = None, validatedFirstUpdate = False\<rparr>],
             debugLog = []\<rparr>
            ''BTCUSDT'' 100)
          ''BTCUSDT'')
        ''BTCUSDT'',
      thrown = None\<rparr>"
proof -
  let ?m = "\<lparr>mapper_exchange = ''binance'', ignoreBookSnapshotOverlapError = True,
      symbolToDepthInfoMapping = [''BTCUSDT'' \<mapsto>
        \<lparr>bufferedUpdates =
           \<lparr>cb_buffer =
              [Some \<lparr>d_E = 1, d_s = ''BTCUSDT'', d_U = 85, d_u = 90, d_b = [], d_a = []\<rparr>,
               Some \<lparr>d_E = 2, d_s = ''BTCUSDT'', d_U = 91, d_u = 105, d_b = [(''3'', ''4'')], d_a = []\<rparr>],
            cb_index = 2, cb_bufferSize = 200\<rparr>,
         snapshotProcessed = False, lastUpdateId = None, validatedFirstUpdate = False\<rparr>],
      debugLog = []\<rparr>"
  let ?upds = "[\<lparr>d_E = 1, d_s = ''BTCUSDT'', d_U = 85, d_u = 90, d_b = [], d_a = []\<rparr>,
       \<lparr>d_E = 2, d_s = ''BTCUSDT'', d_U = 91, d_u = 105, d_b = [(''3'', ''4'')], d_a = []\<rparr>]"
  have h1: "\<not> snapshotProcessed (depthInfo ?m ''BTCUSDT'')" by code_simp
  have h2: "bufferedItems ?m ''BTCUSDT'' = map Some ?upds" by code_simp
  have h3: "streamSymbol ''btcusdt@depthSnapshot'' = ''BTCUSDT''" by code_simp
  have h4: "validatedFirstUpdate (depthInfo ?m ''BTCUSDT'') = False" by code_simp
  have h5: "overlaps \<lparr>d_E = 2, d_s = ''BTCUSDT'', d_U = 91, d_u = 105, d_b = [(''3'', ''4'')], d_a = []\<rparr> 100"
    by (simp add: overlaps_exact)
  show ?thesis
    using C3_first_snapshot_replays_buffer [OF h1 h2 h3, of "\<lambda>s. s"
      "\<lparr>snapshot_lastUpdateId = 100, snapshot_bids = [(''1'', ''2'')], snapshot_asks = []\<rparr>" 8]
      h4 h5
    by (simp add: Let_def snapshotBookChange_def updateBookChange_def mapBookLevel_def)
qed

text \<open>
  C6, as stated, fails: \<open>lastUpdateId\<close> is the snapshot's id and accepted updates never
  advance it. After the snapshot with id 100 and the accepted update with \<open>u = 105\<close> the
  symbol is streaming, and the update with \<open>u = 103\<close>, below the highest accepted
  end-sequence id, is emitted.
\<close>

theorem C6_streaming_discards_by_snapshot_id_counterexample:
  "snapshotProcessed (depthInfo
      (after (mapAll (\<lambda>s. s) (new_BinanceBookChangeMapper ''binance'' False)
        [(snapshotMessage ''btcusdt@depthSnapshot''
            \<lparr>snapshot_lastUpdateId = 100, snapshot_bids = [], snapshot_asks = []\<rparr>, 1),
         (updateMessage ''btcusdt@depth''
            \<lparr>d_E = 2, d_s = ''BTCUSDT'', d_U = 101, d_u = 105, d_b = [], d_a = []\<rparr>, 2)]))
      ''BTCUSDT'')
   \<and> validatedFirstUpdate (depthInfo
      (after (mapAll (\<lambda>s. s) (new_BinanceBookChangeMapper ''binance'' False)
        [(snapshotMessage ''btcusdt@depthSnapshot''
            \<lparr>snapshot_lastUpdateId = 100, snapshot_bids = [], snapshot_asks = []\<rparr>, 1),
         (updateMessage ''btcusdt@depth''
            \<lparr>d_E = 2, d_s = ''BTCUSDT'', d_U = 101, d_u = 105, d_b = [], d_a = []\<rparr>, 2)]))
      ''BTCUSDT'')
   \<and> map isSnapshot (yielded (mapAll (\<lambda>s. s) (new_BinanceBookChangeMapper ''binance'' False)
        [(snapshotMessage ''btcusdt@depthSnapshot''
            \<lparr>snapshot_lastUpdateId = 100, snapshot_bids = [], snapshot_asks = []\<rparr>, 1),
         (updateMessage ''btcusdt@depth''
            \<lparr>d_E = 2, d_s = ''BTCUSDT'', d_U = 101, d_u = 105, d_b = [], d_a = []\<rparr>, 2)]))
      = [True, False]
   \<and> yielded (mapDepth (\<lambda>s. s)
      (after (mapAll (\<lambda>s. s) (new_BinanceBookChangeMapper ''binance'' False)
        [(snapshotMessage ''btcusdt@depthSnapshot''
            \<lparr>snapshot_lastUpdateId = 100, snapshot_bids = [], snapshot_asks = []\<rparr>, 1),
         (updateMessage ''btcusdt@depth''
            \<lparr>d_E = 2, d_s = ''BTCUSDT'', d_U = 101, d_u = 105, d_b = [], d_a = []\<rparr>, 2)]))
      (updateMessage ''btcusdt@depth''
         \<lparr>d_E = 3, d_s = ''BTCUSDT'', d_U = 102, d_u = 103, d_b = [], d_a = []\<rparr>) 3)
     = [\<lparr>event_type = ''book_change'', symbol = ''BTCUSDT'', exchange = ''binance'',
         isSnapshot = False, bids = [], asks = [], timestamp = 3, localTimestamp = 3\<rparr>]"
  by code_simp


text \<open>
  C6, amended. For a symbol in the streaming state (snapshot processed, first update
  validated, \<open>lastUpdateId = L\<close> from the snapshot), a run of updates of that symbol yields
  exactly the updates with \<open>u > L\<close>, in order, as book changes with
  \<open>isSnapshot = False\<close>; an update is discarded exactly when \<open>u \<le> L\<close>. The run throws
  nothing and leaves the mapper, so every symbol's state and \<open>lastUpdateId\<close>, as it was.
\<close>

theorem C6_streaming_discards_by_snapshot_id:
  assumes "symbolToDepthInfoMapping this symb = Some info" "snapshotProcessed info"
    "validatedFirstUpdate info" "lastUpdateId info = Some L"
    "\<forall>m \<in> set us. streamSymbol (fst m) = symb \<and> d_s (fst (snd m)) = symb"
  shows "mapAll Number this (updateMessages us) =
    \<lparr>yielded = map (\<lambda>m. updateBookChange Number (mapper_exchange this) (fst (snd m)) (snd (snd m)))
                 (filter (\<lambda>m. L < d_u (fst (snd m))) us),
     after = this, thrown = None\<rparr>"
  using assms(5)
proof (induction us)
  case Nil
  show ?case by (simp add: updateMessages_def)
next
  case (Cons m us)
  obtain str upd t where m: "m = (str, upd, t)" by (cases m)
  have s: "streamSymbol str = symb" "d_s upd = symb" using Cons.prems m by simp_all
  note st = streaming_step [OF assms(1-4) s, of Number t]
  have ih: "mapAll Number this (updateMessages us) =
    \<lparr>yielded = map (\<lambda>m. updateBookChange Number (mapper_exchange this) (fst (snd m)) (snd (snd m)))
                 (filter (\<lambda>m. L < d_u (fst (snd m))) us),
     after = this, thrown = None\<rparr>"
    using Cons.IH Cons.prems by simp
  have unf: "mapAll Number this (updateMessages ((str, upd, t) # us)) =
      (mapAll Number this (updateMessages us))
        \<lparr>yielded := (if L < d_u upd then [updateBookChange Number (mapper_exchange this) upd t] else [])
            @ yielded (mapAll Number this (updateMessages us))\<rparr>"
    by (simp add: updateMessages_def Let_def st)
  show ?case unfolding m by (simp add: unf ih)
qed


theorem C6_streaming_discards_by_snapshot_id_witness:
  "mapAll (\<lambda>s. s)
     \<lparr>mapper_exchange = ''binance'', ignoreBookSnapshotOverlapError = False,
      symbolToDepthInfoMapping = [''BTCUSDT'' \<mapsto>
        \<lparr>bufferedUpdates = new_CircularBuffer 200, snapshotProcessed = True,
         lastUpdateId = Some 100, validatedFirstUpdate = True\<rparr>],
      debugLog = []\<rparr>
     (updateMessages
        [(''btcusdt@depth'', \<lparr>d_E = 1, d_s = ''BTCUSDT'', d_U = 101, d_u = 105, d_b = [], d_a = []\<rparr>, 5),
         (''btcusdt@depth'', \<lparr>d_E = 2, d_s = ''BTCUSDT'', d_U = 102, d_u = 103, d_b = [], d_a = []\<rparr>, 6),
         (''btcusdt@depth'', \<lparr>d_E = 3, d_s = ''BTCUSDT'', d_U = 98, d_u = 100, d_b = [], d_a = []\<rparr>, 7)])
   = \<lparr>yielded =
        [\<lparr>event_type = ''book_change'', symbol = ''BTCUSDT'', exchange = ''binance'',
          isSnapshot = False, bids = [], asks = [], timestamp = 1, localTimestamp = 5\<rparr>,
         \<lparr>event_type = ''book_change'', symbol = ''BTCUSDT'', exchange = ''binance'',
          isSnapshot = False, bids = [], asks = [], timestamp = 2, localTimestamp = 6\<rparr>],
      after = \<lparr>mapper_exchange = ''binance'', ignoreBookSnapshotOverlapError = False,
        symbolToDepthInfoMapping = [''BTCUSDT'' \<mapsto>
          \<lparr>bufferedUpdates = new_CircularBuffer 200, snapshotProcessed = True,
           lastUpdateId = Some 100, validatedFirstUpdate = True\<rparr>],
        debugLog = []\<rparr>,
      thrown = None\<rparr>"
  using C6_streaming_discards_by_snapshot_id [of
     "\<lparr>mapper_exchange = ''binance'', ignoreBookSnapshotOverlapError = False,
      symbolToDepthInfoMapping = [''BTCUSDT'' \<mapsto>
        \<lparr>bufferedUpdates = new_CircularBuffer 200, snapshotProcessed = True,
         lastUpdateId = Some 100, validatedFirstUpdate = True\<rparr>],
      debugLog = []\<rparr>"
     "''BTCUSDT''"
     "\<lparr>bufferedUpdates = new_CircularBuffer 200, snapshotProcessed = True,
         lastUpdateId = Some 100, validatedFirstUpdate = True\<rparr>"
     100
     "[(''btcusdt@depth'', \<lparr>d_E = 1, d_s = ''BTCUSDT'', d_U = 101, d_u = 105, d_b = [], d_a = []\<rparr>, 5),
       (''btcusdt@depth'', \<lparr>d_E = 2, d_s = ''BTCUSDT'', d_U = 102, d_u = 103, d_b = [], d_a = []\<rparr>, 6),
       (''btcusdt@depth'', \<lparr>d_E = 3, d_s = ''BTCUSDT'', d_U = 98, d_u = 100, d_b = [], d_a = []\<rparr>, 7)]"
     "\<lambda>s. s"]
  by (simp add: streamSymbol_btcusdt updateBookChange_def)





text \<open>
  C8, as stated, fails for a name that every object inherits: \<^verbatim>\<open>constructor\<close> is no key
  of the trades table, yet the value read under it is not \<^verbatim>\<open>undefined\<close>, so nothing is
  thrown at the test and the inherited member is called in the factory's place.
\<close>

theorem C8_unsupported_exchange_throws_counterexample:
  "map_of (tradesMappers :: (string \<times> unit FactoryBody) list) ''constructor'' = None
   \<and> normalizeTrades ''constructor'' 5 ([] :: unit Store) = (CalledInherited ''constructor'' [], [])"
  by (simp add: normalizeTrades_def getProperty_def tradesMappers_def objectPrototypeNames_def)






text \<open>
  C9. With the accumulator of \<^verbatim>\<open>./mapper\<close> modelled from the specification: when no
  changed flag of the message's symbol is raised before the call (so it is for a new
  mapper and after every call of \<^verbatim>\<open>map\<close>), \<^verbatim>\<open>map\<close> yields a ticker exactly when a field
  the message carries differs from the value stored for the symbol: funding rate, mark
  price or event time for a mark-price message, last price or event time for a ticker
  message. The ticker yielded is the one built from the stored values with the message's
  fields written over them; never more than one is yielded. Afterwards the accumulator of
  the symbol holds those values with no flag raised, the accumulators of other symbols
  are as they were, and the same message delivered again yields nothing.
\<close>

theorem C9_ticker_emitted_iff_changed:
  assumes "\<not> hasChanged (pendingInfo this (payload_s (data message)))"
  shows "let symb = payload_s (data message);
             old = pendingInfo this symb;
             new = stored Number old (data message);
             r = mapTicker Number this message t
         in fst r =
              (if accumulated new \<noteq> accumulated old
               then [\<lparr>dt_type = ''derivative_ticker'', dt_symbol = pending_symbol old,
                      dt_exchange = pending_exchange old, dt_lastPrice = lastPrice new,
                      dt_fundingRate = fundingRate new, dt_markPrice = markPrice new,
                      dt_timestamp = pending_timestamp new, dt_localTimestamp = t\<rparr>]
               else [])
            \<and> (\<forall>d. data message = MarkPriceData d \<longrightarrow>
                  (fst r \<noteq> [] \<longleftrightarrow>
                     fundingRate old \<noteq> Some (Number (mp_r d))
                     \<or> markPrice old \<noteq> Some (Number (mp_p d))
                     \<or> pending_timestamp old \<noteq> Some (mp_E d)))
            \<and> (\<forall>d. data message = TickerData d \<longrightarrow>
                  (fst r \<noteq> [] \<longleftrightarrow>
                     lastPrice old \<noteq> Some (Number (tk_c d))
                     \<or> pending_timestamp old \<noteq> Some (tk_E d)))
            \<and> pendingInfo (snd r) symb = new
            \<and> (\<forall>s. s \<noteq> symb \<longrightarrow> pendingInfo (snd r) s = pendingInfo this s)
            \<and> (fst r \<noteq> [] \<longleftrightarrow>
                  accumulated (pendingInfo (snd r) symb) \<noteq> accumulated (pendingInfo this symb))
            \<and> length (fst r) \<le> 1
            \<and> \<not> hasChanged (pendingInfo (snd r) symb)
            \<and> fst (mapTicker Number (snd r) message t') = []"
proof -
  let ?symb = "payload_s (data message)"
  let ?old = "pendingInfo this ?symb"
  let ?new = "stored Number ?old (data message)"
  let ?i2 = "absorbed Number ?old (data message)"
  let ?r = "mapTicker Number this message t"
  let ?i3 = "pendingInfo (snd ?r) ?symb"
  have ch: "hasChanged ?i2 = (accumulated ?new \<noteq> accumulated ?old)"
    using assms absorbed_changed [of Number ?old "data message"]
    by (simp add: absorbed_accumulated)
  have i3: "?i3 = ?new"
    using pendingInfo_after [of Number this message t] absorbed_stored [OF assms, of Number "data message" t]
    by (simp add: Let_def)
  have out: "fst ?r =
              (if accumulated ?new \<noteq> accumulated ?old
               then [\<lparr>dt_type = ''derivative_ticker'', dt_symbol = pending_symbol ?old,
                      dt_exchange = pending_exchange ?old, dt_lastPrice = lastPrice ?new,
                      dt_fundingRate = fundingRate ?new, dt_markPrice = markPrice ?new,
                      dt_timestamp = pending_timestamp ?new, dt_localTimestamp = t\<rparr>]
               else [])"
    using absorbed_accumulated [of Number ?old "data message"]
    by (simp add: mapTicker_absorbed Let_def ch getSnapshot_def absorbed_names accumulated_def)
  have mp: "\<forall>d. data message = MarkPriceData d \<longrightarrow>
                  (fst ?r \<noteq> [] \<longleftrightarrow>
                     fundingRate ?old \<noteq> Some (Number (mp_r d))
                     \<or> markPrice ?old \<noteq> Some (Number (mp_p d))
                     \<or> pending_timestamp ?old \<noteq> Some (mp_E d))"
    by (auto simp: out stored_def accumulated_def)
  have tk: "\<forall>d. data message = TickerData d \<longrightarrow>
                  (fst ?r \<noteq> [] \<longleftrightarrow>
                     lastPrice ?old \<noteq> Some (Number (tk_c d))
                     \<or> pending_timestamp ?old \<noteq> Some (tk_E d))"
    by (auto simp: out stored_def accumulated_def)
  have other: "\<forall>s. s \<noteq> ?symb \<longrightarrow> pendingInfo (snd ?r) s = pendingInfo this s"
    by (simp add: mapTicker_other)
  have emit: "(fst ?r \<noteq> []) = (accumulated ?i3 \<noteq> accumulated ?old)" "length (fst ?r) \<le> 1"
    by (simp_all add: out i3)
  have clean3: "\<not> hasChanged ?i3"
    using pendingInfo_after [of Number this message t]
    by (simp add: Let_def getSnapshot_snd)
  have acc3: "accumulated ?i3 = accumulated ?i2"
    by (simp add: i3 absorbed_accumulated)
  have "accumulated (absorbed Number ?i3 (data message)) = accumulated ?i3"
    using absorbed_cong [OF acc3, of Number "data message"] absorbed_twice [of Number ?old "data message"]
      acc3 by simp
  then have "\<not> hasChanged (absorbed Number ?i3 (data message))"
    using clean3 absorbed_changed [of Number ?i3 "data message"] by simp
  then have again: "fst (mapTicker Number (snd ?r) message t') = []"
    by (simp add: mapTicker_absorbed [of Number "snd ?r" message t'] Let_def)
  show ?thesis
    unfolding Let_def using out mp tk i3 other emit clean3 again by simp
qed


theorem C9_ticker_emitted_iff_changed_witness:
  "fst (mapTicker (\<lambda>s. s) new_BinanceFuturesDerivativeTickerMapper
      \<lparr>stream = Some ''btcusdt@markPrice'',
       data = MarkPriceData \<lparr>mp_s = ''BTCUSDT'', mp_E = 10, mp_p = ''9000.5'', mp_r = ''0.0001''\<rparr>\<rparr> 11)
     = [\<lparr>dt_type = ''derivative_ticker'', dt_symbol = ''BTCUSDT'', dt_exchange = ''binance-futures'',
         dt_lastPrice = None, dt_fundingRate = Some ''0.0001'', dt_markPrice = Some ''9000.5'',
         dt_timestamp = Some 10, dt_localTimestamp = 11\<rparr>]
   \<and> fst (mapTicker (\<lambda>s. s)
      (snd (mapTicker (\<lambda>s. s) new_BinanceFuturesDerivativeTickerMapper
        \<lparr>stream = Some ''btcusdt@markPrice'',
         data = MarkPriceData \<lparr>mp_s = ''BTCUSDT'', mp_E = 10, mp_p = ''9000.5'', mp_r = ''0.0001''\<rparr>\<rparr> 11))
      \<lparr>stream = Some ''btcusdt@markPrice'',
       data = MarkPriceData \<lparr>mp_s = ''BTCUSDT'', mp_E = 10, mp_p = ''9000.5'', mp_r = ''0.0001''\<rparr>\<rparr> 12)
     = []"
proof -
  let ?m = "\<lparr>stream = Some ''btcusdt@markPrice'',
       data = MarkPriceData \<lparr>mp_s = ''BTCUSDT'', mp_E = 10, mp_p = ''9000.5'', mp_r = ''0.0001''\<rparr>\<rparr>"
  have h: "\<not> hasChanged (pendingInfo
      (new_BinanceFuturesDerivativeTickerMapper :: string BinanceFuturesDerivativeTickerMapper)
      (payload_s (data ?m)))"
    by (rule new_mapper_clean)
  show ?thesis
    using C9_ticker_emitted_iff_changed [OF h, of "\<lambda>s. s" 11 12]
    by (simp add: Let_def stored_def accumulated_def pendingInfo_def
        new_BinanceFuturesDerivativeTickerMapper_def new_PendingTickerInfo_def)
qed

text \<open>
  C10. For a message whose \<^verbatim>\<open>stream\<close> is undefined, \<^verbatim>\<open>canHandle\<close> of the trades mapper,
  of the book-change mapper and of the derivative ticker mapper returns false, and for
  every message each of them leaves its mapper as it was.
\<close>

theorem C10_canHandle_undefined_stream:
  "BinanceTradesMapper_canHandle tm (message\<lparr>stream := None\<rparr>) = (False, tm)
   \<and> BinanceBookChangeMapper_canHandle bm (message\<lparr>stream := None\<rparr>) = (False, bm)
   \<and> BinanceFuturesDerivativeTickerMapper_canHandle dm (message\<lparr>stream := None\<rparr>) = (False, dm)
   \<and> snd (BinanceTradesMapper_canHandle tm message) = tm
   \<and> snd (BinanceBookChangeMapper_canHandle bm message) = bm
   \<and> snd (BinanceFuturesDerivativeTickerMapper_canHandle dm message) = dm"
  by (simp add: BinanceTradesMapper_canHandle_def BinanceBookChangeMapper_canHandle_def
      BinanceFuturesDerivativeTickerMapper_canHandle_def split: option.splits)


end
